theory Spec2Isabelle
  imports Main "HOL-Library.Sublist"
begin

unbundle bit_operations_syntax

section \<open>sharedir: sharing one directory over HTTP\<close>

text \<open>
  The repository holds two variants of one Go program: \<^verbatim>\<open>sharedir.go\<close> and an
  earlier file whose name is not recorded (its functions carry the suffix \<open>_u\<close> below
  where the two files use the same name). Both register one handler, \<^verbatim>\<open>serve\<close>, which
  turns the request URI into a path below the shared directory and answers with the
  file's bytes, a directory listing or an error.

  Go strings are byte strings; they are modelled as \<^typ>\<open>string\<close>. Paths follow the Unix
  rules of \<^verbatim>\<open>path/filepath\<close> (separator \<open>/\<close>, no volume names). Calls that only
  write to the log are left out; \<^verbatim>\<open>log.Fatalf\<close>, which ends the process, is kept.
\<close>

subsection \<open>The functions of package strings that the program calls\<close>

text \<open>\<^verbatim>\<open>strings.HasPrefix(s, prefix)\<close> and \<^verbatim>\<open>strings.TrimPrefix(s, prefix)\<close>.\<close>

definition HasPrefix :: "string \<Rightarrow> string \<Rightarrow> bool" where
  "HasPrefix s p = prefix p s"

definition TrimPrefix :: "string \<Rightarrow> string \<Rightarrow> string" where
  "TrimPrefix s p = (if HasPrefix s p then drop (length p) s else s)"

text \<open>
  \<^verbatim>\<open>strings.ReplaceAll(s, old, new)\<close>: the non-overlapping occurrences of \<open>old\<close> are
  replaced from left to right. The second argument of \<open>replaceFrom\<close> counts the bytes
  of a matched occurrence that are still to be skipped. The program passes three-byte
  literals for \<open>old\<close>; for an empty \<open>old\<close> Go inserts \<open>new\<close> around every character,
  which is written out for bytes.
\<close>

fun replaceFrom :: "string \<Rightarrow> string \<Rightarrow> nat \<Rightarrow> string \<Rightarrow> string" where
  "replaceFrom old new k [] = []"
| "replaceFrom old new (Suc k) (c # cs) = replaceFrom old new k cs"
| "replaceFrom old new 0 (c # cs) =
     (if prefix old (c # cs) then new @ replaceFrom old new (length old - 1) cs
      else c # replaceFrom old new 0 cs)"

definition ReplaceAll :: "string \<Rightarrow> string \<Rightarrow> string \<Rightarrow> string" where
  "ReplaceAll s old new =
     (if old = [] then new @ concat (map (\<lambda>c. c # new) s)
      else replaceFrom old new 0 s)"

text \<open>
  \<^verbatim>\<open>strings.Split(s, sep)\<close> for a separator of one byte, the only kind the program
  passes, and \<^verbatim>\<open>strings.Join(elems, sep)\<close>.
\<close>

fun splitSep :: "char \<Rightarrow> string \<Rightarrow> string list" where
  "splitSep c [] = [[]]"
| "splitSep c (x # xs) =
     (if x = c then [] # splitSep c xs
      else (case splitSep c xs of
              [] \<Rightarrow> [[x]]
            | p # ps \<Rightarrow> (x # p) # ps))"

fun joinSep :: "string \<Rightarrow> string list \<Rightarrow> string" where
  "joinSep sep [] = []"
| "joinSep sep [e] = e"
| "joinSep sep (e # es) = e @ sep @ joinSep sep es"

subsection \<open>The functions of package path/filepath that the program calls\<close>

text \<open>
  \<^verbatim>\<open>filepath.Clean\<close> works on the elements between separators: empty elements and
  \<open>.\<close> are dropped, \<open>..\<close> removes the element before it, is dropped at the root of a
  rooted path and is kept at the start of a relative one. The elements kept so far are
  held as a stack, the last one first. The result of a rooted path starts with the
  separator; an empty relative result is \<open>.\<close>.
\<close>

definition cleanStep :: "bool \<Rightarrow> string list \<Rightarrow> string \<Rightarrow> string list" where
  "cleanStep rooted stk e =
     (if e = [] \<or> e = ''.'' then stk
      else if e = ''..'' then
        (case stk of
           [] \<Rightarrow> if rooted then [] else [''..'']
         | t # r \<Rightarrow> if t = ''..'' then ''..'' # stk else r)
      else e # stk)"

definition Clean :: "string \<Rightarrow> string" where
  "Clean path =
     (if path = [] then ''.''
      else
        let rooted = (hd path = CHR ''/'');
            out = rev (foldl (cleanStep rooted) [] (splitSep (CHR ''/'') path))
        in if rooted then CHR ''/'' # joinSep ''/'' out
           else if out = [] then ''.''
           else joinSep ''/'' out)"

text \<open>
  \<^verbatim>\<open>filepath.Join\<close>: the elements from the first non-empty one on are joined with the
  separator and cleaned; with no non-empty element the result is the empty string.
\<close>

fun Join :: "string list \<Rightarrow> string" where
  "Join [] = []"
| "Join (e # es) = (if e = [] then Join es else Clean (joinSep ''/'' (e # es)))"

text \<open>
  \<^verbatim>\<open>filepath.Abs\<close>: an absolute path is cleaned; a relative one is joined to the
  working directory, and the call fails when \<^verbatim>\<open>os.Getwd\<close> does. The first argument
  is the result of \<^verbatim>\<open>os.Getwd\<close>, \<open>None\<close> for its error.
\<close>

definition IsAbs :: "string \<Rightarrow> bool" where
  "IsAbs path = HasPrefix path ''/''"

definition Abs :: "string option \<Rightarrow> string \<Rightarrow> string option" where
  "Abs getwd path =
     (if IsAbs path then Some (Clean path)
      else (case getwd of
              None \<Rightarrow> None
            | Some wd \<Rightarrow> Some (Join [wd, path])))"

text \<open>
  \<^verbatim>\<open>filepath.Dir\<close>: everything up to and including the last separator, cleaned.
  \<^verbatim>\<open>filepath.Ext\<close>: the suffix that starts at the last dot of the last element; empty
  when that element has no dot.
\<close>

definition Dir :: "string \<Rightarrow> string" where
  "Dir path = Clean (rev (dropWhile (\<lambda>c. c \<noteq> CHR ''/'') (rev path)))"

definition Ext :: "string \<Rightarrow> string" where
  "Ext path =
     (let base = takeWhile (\<lambda>c. c \<noteq> CHR ''/'') (rev path)
      in if CHR ''.'' \<in> set base
         then CHR ''.'' # rev (takeWhile (\<lambda>c. c \<noteq> CHR ''.'') base)
         else [])"

text \<open>
  \<^verbatim>\<open>filepath.Split\<close> cuts a path after its last separator; \<^verbatim>\<open>main\<close> keeps the
  directory half.
\<close>

definition SplitDir :: "string \<Rightarrow> string" where
  "SplitDir path = rev (dropWhile (\<lambda>c. c \<noteq> CHR ''/'') (rev path))"

subsection \<open>The world outside the program\<close>

text \<open>
  What \<^verbatim>\<open>os.Stat\<close>, \<^verbatim>\<open>os.ReadFile\<close> and \<^verbatim>\<open>os.ReadDir\<close> return is given by the
  file system, \<open>None\<close> standing for a returned error. A directory entry carries its name
  and the result of its \<^verbatim>\<open>Info()\<close> call. Modification times are seconds.
\<close>

record FileInfo =
  IsDir :: bool
  Size :: int
  ModTime :: nat

record DirEntry =
  Name :: string
  Info :: "FileInfo option"

text \<open>
  The value handed to the HTML template of \<^verbatim>\<open>sharedir.go\<close>, the two functions the
  template may call, and the template itself. The file \<^verbatim>\<open>template.html\<close> is read at
  run time and is not part of the sources, so a parsed template is any function from
  the data to the chunks it writes and to whether its execution succeeded.
\<close>

record DirData =
  DirName :: string
  Content :: "DirEntry list"

record FuncMap =
  ttos :: "nat \<Rightarrow> string"
  href :: "string \<Rightarrow> string"

type_synonym Template = "DirData \<Rightarrow> string list \<times> bool"

datatype Arg = S string | D int

text \<open>
  The operating system and the library tables the handlers consult:
  the working directory, the file system, the entity decoder behind
  \<^verbatim>\<open>html.UnescapeString\<close>, the table behind \<^verbatim>\<open>mime.TypeByExtension\<close> (the empty string
  for an unknown extension), template parsing, \<^verbatim>\<open>time.Time.Format\<close> (layout first),
  \<^verbatim>\<open>fmt.Sprintf\<close>, and the location of the running executable.
\<close>

record System =
  Getwd :: "string option"
  Stat :: "string \<Rightarrow> FileInfo option"
  ReadFile :: "string \<Rightarrow> string option"
  ReadDir :: "string \<Rightarrow> DirEntry list option"
  unescapeEntities :: "string \<Rightarrow> string"
  TypeByExtension :: "string \<Rightarrow> string"
  ParseFiles :: "FuncMap \<Rightarrow> string \<Rightarrow> Template option"
  Format :: "string \<Rightarrow> nat \<Rightarrow> string"
  Sprintf :: "string \<Rightarrow> Arg list \<Rightarrow> string"
  Executable :: "string option"
  EvalSymlinks :: "string \<Rightarrow> string option"

text \<open>
  \<^verbatim>\<open>html.UnescapeString\<close> returns its argument unchanged when it holds no ampersand and
  decodes entities otherwise.
\<close>

definition UnescapeString :: "System \<Rightarrow> string \<Rightarrow> string" where
  "UnescapeString sys s = (if CHR ''&'' \<in> set s then unescapeEntities sys s else s)"

subsection \<open>The response writer\<close>

text \<open>
  A handler acts on its \<^verbatim>\<open>http.ResponseWriter\<close> through three calls:
  \<^verbatim>\<open>WriteHeader(code)\<close>, \<^verbatim>\<open>Header().Set(key, value)\<close> and \<^verbatim>\<open>Write(bytes)\<close>. The writer
  is the sequence of calls made on it so far, together with whether its connection is
  broken, in which case \<^verbatim>\<open>Write\<close> returns an error.
\<close>

datatype call = WriteHeader nat | HeaderSet string string | Write string

record ResponseWriter =
  calls :: "call list"
  broken :: bool

definition doWriteHeader :: "nat \<Rightarrow> ResponseWriter \<Rightarrow> ResponseWriter" where
  "doWriteHeader code w = w\<lparr>calls := calls w @ [WriteHeader code]\<rparr>"

definition doHeaderSet :: "string \<Rightarrow> string \<Rightarrow> ResponseWriter \<Rightarrow> ResponseWriter" where
  "doHeaderSet k v w = w\<lparr>calls := calls w @ [HeaderSet k v]\<rparr>"

definition doWrite :: "string \<Rightarrow> ResponseWriter \<Rightarrow> ResponseWriter \<times> bool" where
  "doWrite bytes w = (w\<lparr>calls := calls w @ [Write bytes]\<rparr>, \<not> broken w)"

text \<open>
  The status line of the response: that of the first \<^verbatim>\<open>WriteHeader\<close>, unless a
  \<^verbatim>\<open>Write\<close> comes first, which sends 200; a handler that returns without either
  gets 200 as well.
\<close>

fun statusOf :: "call list \<Rightarrow> nat" where
  "statusOf [] = 200"
| "statusOf (WriteHeader code # cs) = code"
| "statusOf (Write bytes # cs) = 200"
| "statusOf (HeaderSet k v # cs) = statusOf cs"

text \<open>The bytes of the response body, in the order written.\<close>

fun bodyOf :: "call list \<Rightarrow> string" where
  "bodyOf [] = []"
| "bodyOf (Write bytes # cs) = bytes @ bodyOf cs"
| "bodyOf (WriteHeader code # cs) = bodyOf cs"
| "bodyOf (HeaderSet k v # cs) = bodyOf cs"

text \<open>
  Whether a header field has been set before the first body byte is written: this is
  what the ordering of \<^verbatim>\<open>Header().Set\<close> and \<^verbatim>\<open>Write\<close> in a handler decides.
\<close>

fun setBeforeBody :: "string \<Rightarrow> call list \<Rightarrow> bool" where
  "setBeforeBody k [] = False"
| "setBeforeBody k (HeaderSet k' v # cs) = (k' = k \<or> setBeforeBody k cs)"
| "setBeforeBody k (Write bytes # cs) = False"
| "setBeforeBody k (WriteHeader code # cs) = setBeforeBody k cs"

text \<open>
  A handler either returns, or ends the whole process through \<^verbatim>\<open>log.Fatalf\<close>; the
  string is the start of the logged message.
\<close>

datatype outcome = Returned ResponseWriter | Fatal string ResponseWriter

definition StatusOK :: nat where "StatusOK = 200"
definition StatusBadRequest :: nat where "StatusBadRequest = 400"
definition StatusUnauthorized :: nat where "StatusUnauthorized = 401"
definition StatusNotFound :: nat where "StatusNotFound = 404"
definition StatusInternalServerError :: nat where "StatusInternalServerError = 500"

subsection \<open>The response as net/http sends it\<close>

text \<open>
  What reaches the client is decided by \<^verbatim>\<open>net/http\<close> from the calls of the handler.
  The first \<^verbatim>\<open>WriteHeader\<close> or \<^verbatim>\<open>Write\<close> commits the status and the header map as it
  is at that moment; a \<^verbatim>\<open>Header().Set\<close> made later changes nothing that is sent. If
  the committed map has no \<open>Content-Type\<close> (and no content or transfer encoding), the
  status allows a body and the body is not empty, the server adds the type that
  \<^verbatim>\<open>http.DetectContentType\<close> finds in the first 512 bytes of the body; with the
  status 304 it sends no \<open>Content-Type\<close> at all. The handlers use the status codes
  200, 400, 401, 404 and 500, spell header keys in canonical form and never flush, so
  informational codes, key normalisation and a body sent in several parts are not
  modelled.

  \<^verbatim>\<open>DetectContentType\<close> follows \<^verbatim>\<open>net/http/sniff.go\<close>: the signatures are tried in
  order on at most 512 bytes, the plain-text signature last.
\<close>

definition byte :: "char \<Rightarrow> nat" where
  "byte c = of_char c"

definition isWS :: "char \<Rightarrow> bool" where
  "isWS b = (b = CHR 0x09 \<or> b = CHR 0x0A \<or> b = CHR 0x0C \<or> b = CHR 0x0D \<or> b = CHR '' '')"

definition isTT :: "char \<Rightarrow> bool" where
  "isTT b = (b = CHR '' '' \<or> b = CHR ''>'')"

text \<open>
  The kinds of signature; a masked signature holds its mask, its pattern, whether
  leading white space is skipped, and its type; an exact signature its bytes and type.
\<close>

datatype sniffSig =
    htmlSig string
  | maskedSig string string bool string
  | exactSig string string
  | mp4Sig
  | textSig

fun htmlBytes :: "string \<Rightarrow> string \<Rightarrow> bool" where
  "htmlBytes [] data = True"
| "htmlBytes (b # h) [] = False"
| "htmlBytes (b # h) (db # data) =
     ((if byte CHR ''A'' \<le> byte b \<and> byte b \<le> byte CHR ''Z'' then byte db AND 0xDF
       else byte db) = byte b
      \<and> htmlBytes h data)"

fun maskedBytes :: "string \<Rightarrow> string \<Rightarrow> string \<Rightarrow> bool" where
  "maskedBytes (pb # pat) (mb # msk) (db # data) =
     (byte db AND byte mb = byte pb \<and> maskedBytes pat msk data)"
| "maskedBytes pat msk data = True"

definition bigEndian32 :: "string \<Rightarrow> nat" where
  "bigEndian32 b =
     ((byte (b ! 0) * 256 + byte (b ! 1)) * 256 + byte (b ! 2)) * 256 + byte (b ! 3)"

text \<open>
  The loop of the MP4 signature over the brands of the first box: every fourth
  position from 8 up to the box size, the position 12 left out.
\<close>

definition mp4Brand :: "string \<Rightarrow> nat \<Rightarrow> bool" where
  "mp4Brand data boxSize =
     list_ex (\<lambda>st. st mod 4 = 0 \<and> st \<noteq> 12 \<and> take 3 (drop st data) = ''mp4'') [8..<boxSize]"

fun textBytes :: "string \<Rightarrow> bool" where
  "textBytes [] = True"
| "textBytes (b # data) =
     (if byte b \<le> 0x08 \<or> byte b = 0x0B \<or> (0x0E \<le> byte b \<and> byte b \<le> 0x1A)
         \<or> (0x1C \<le> byte b \<and> byte b \<le> 0x1F)
      then False else textBytes data)"

text \<open>The \<^verbatim>\<open>match\<close> method of each kind; the empty string means no match.\<close>

fun sigMatch :: "sniffSig \<Rightarrow> string \<Rightarrow> nat \<Rightarrow> string" where
  "sigMatch (htmlSig h) data firstNonWS =
     (let d = drop firstNonWS data
      in if length d < length h + 1 then []
         else if \<not> htmlBytes h d then []
         else if \<not> isTT (d ! length h) then []
         else ''text/html; charset=utf-8'')"
| "sigMatch (maskedSig msk pat skipWS ct) data firstNonWS =
     (let d = (if skipWS then drop firstNonWS data else data)
      in if length pat \<noteq> length msk then []
         else if length d < length pat then []
         else if \<not> maskedBytes pat msk d then []
         else ct)"
| "sigMatch (exactSig sig ct) data firstNonWS =
     (if take (length sig) data = sig then ct else [])"
| "sigMatch mp4Sig data firstNonWS =
     (if length data < 12 then []
      else let boxSize = bigEndian32 data
           in if length data < boxSize \<or> boxSize mod 4 \<noteq> 0 then []
              else if take 4 (drop 4 data) \<noteq> ''ftyp'' then []
              else if mp4Brand data boxSize then ''video/mp4''
              else [])"
| "sigMatch textSig data firstNonWS =
     (if textBytes (drop firstNonWS data) then ''text/plain; charset=utf-8'' else [])"

definition sniffSignatures :: "sniffSig list" where
  "sniffSignatures =
     [htmlSig ''<!DOCTYPE HTML'', htmlSig ''<HTML'', htmlSig ''<HEAD'', htmlSig ''<SCRIPT'',
      htmlSig ''<IFRAME'', htmlSig ''<H1'', htmlSig ''<DIV'', htmlSig ''<FONT'',
      htmlSig ''<TABLE'', htmlSig ''<A'', htmlSig ''<STYLE'', htmlSig ''<TITLE'',
      htmlSig ''<B'', htmlSig ''<BODY'', htmlSig ''<BR'', htmlSig ''<P'', htmlSig ''<!--'',
      maskedSig [CHR 0xFF, CHR 0xFF, CHR 0xFF, CHR 0xFF, CHR 0xFF] ''<?xml'' True ''text/xml; charset=utf-8'',
      exactSig ''%PDF-'' ''application/pdf'',
      exactSig ''%!PS-Adobe-'' ''application/postscript'',
      maskedSig [CHR 0xFF, CHR 0xFF, CHR 0x00, CHR 0x00] [CHR 0xFE, CHR 0xFF, CHR 0x00, CHR 0x00] False ''text/plain; charset=utf-16be'',
      maskedSig [CHR 0xFF, CHR 0xFF, CHR 0x00, CHR 0x00] [CHR 0xFF, CHR 0xFE, CHR 0x00, CHR 0x00] False ''text/plain; charset=utf-16le'',
      maskedSig [CHR 0xFF, CHR 0xFF, CHR 0xFF, CHR 0x00] [CHR 0xEF, CHR 0xBB, CHR 0xBF, CHR 0x00] False ''text/plain; charset=utf-8'',
      exactSig [CHR 0x00, CHR 0x00, CHR 0x01, CHR 0x00] ''image/x-icon'',
      exactSig [CHR 0x00, CHR 0x00, CHR 0x02, CHR 0x00] ''image/x-icon'',
      exactSig ''BM'' ''image/bmp'',
      exactSig ''GIF87a'' ''image/gif'',
      exactSig ''GIF89a'' ''image/gif'',
      maskedSig [CHR 0xFF, CHR 0xFF, CHR 0xFF, CHR 0xFF, CHR 0x00, CHR 0x00, CHR 0x00, CHR 0x00, CHR 0xFF, CHR 0xFF, CHR 0xFF, CHR 0xFF, CHR 0xFF, CHR 0xFF] (''RIFF'' @ [CHR 0x00, CHR 0x00, CHR 0x00, CHR 0x00] @ ''WEBPVP'') False ''image/webp'',
      exactSig ([CHR 0x89] @ ''PNG'' @ [CHR 0x0D, CHR 0x0A, CHR 0x1A, CHR 0x0A]) ''image/png'',
      exactSig [CHR 0xFF, CHR 0xD8, CHR 0xFF] ''image/jpeg'',
      maskedSig [CHR 0xFF, CHR 0xFF, CHR 0xFF, CHR 0xFF, CHR 0x00, CHR 0x00, CHR 0x00, CHR 0x00, CHR 0xFF, CHR 0xFF, CHR 0xFF, CHR 0xFF] (''FORM'' @ [CHR 0x00, CHR 0x00, CHR 0x00, CHR 0x00] @ ''AIFF'') False ''audio/aiff'',
      maskedSig [CHR 0xFF, CHR 0xFF, CHR 0xFF] ''ID3'' False ''audio/mpeg'',
      maskedSig [CHR 0xFF, CHR 0xFF, CHR 0xFF, CHR 0xFF, CHR 0xFF] (''OggS'' @ [CHR 0x00]) False ''application/ogg'',
      maskedSig [CHR 0xFF, CHR 0xFF, CHR 0xFF, CHR 0xFF, CHR 0xFF, CHR 0xFF, CHR 0xFF, CHR 0xFF] (''MThd'' @ [CHR 0x00, CHR 0x00, CHR 0x00, CHR 0x06]) False ''audio/midi'',
      maskedSig [CHR 0xFF, CHR 0xFF, CHR 0xFF, CHR 0xFF, CHR 0x00, CHR 0x00, CHR 0x00, CHR 0x00, CHR 0xFF, CHR 0xFF, CHR 0xFF, CHR 0xFF] (''RIFF'' @ [CHR 0x00, CHR 0x00, CHR 0x00, CHR 0x00] @ ''AVI '') False ''video/avi'',
      maskedSig [CHR 0xFF, CHR 0xFF, CHR 0xFF, CHR 0xFF, CHR 0x00, CHR 0x00, CHR 0x00, CHR 0x00, CHR 0xFF, CHR 0xFF, CHR 0xFF, CHR 0xFF] (''RIFF'' @ [CHR 0x00, CHR 0x00, CHR 0x00, CHR 0x00] @ ''WAVE'') False ''audio/wave'',
      mp4Sig,
      exactSig [CHR 0x1A, CHR 0x45, CHR 0xDF, CHR 0xA3] ''video/webm'',
      maskedSig (replicate 34 (CHR 0x00) @ [CHR 0xFF, CHR 0xFF]) (replicate 34 (CHR 0x00) @ ''LP'') False
        ''application/vnd.ms-fontobject'',
      exactSig [CHR 0x00, CHR 0x01, CHR 0x00, CHR 0x00] ''font/ttf'',
      exactSig ''OTTO'' ''font/otf'',
      exactSig ''ttcf'' ''font/collection'',
      exactSig ''wOFF'' ''font/woff'',
      exactSig ''wOF2'' ''font/woff2'',
      exactSig [CHR 0x1F, CHR 0x8B, CHR 0x08] ''application/x-gzip'',
      exactSig (''PK'' @ [CHR 0x03, CHR 0x04]) ''application/zip'',
      exactSig (''Rar!'' @ [CHR 0x1A, CHR 0x07, CHR 0x00]) ''application/x-rar-compressed'',
      exactSig (''Rar!'' @ [CHR 0x1A, CHR 0x07, CHR 0x01, CHR 0x00]) ''application/x-rar-compressed'',
      exactSig [CHR 0x00, CHR 0x61, CHR 0x73, CHR 0x6D] ''application/wasm'',
      textSig]"

fun firstMatch :: "sniffSig list \<Rightarrow> string \<Rightarrow> nat \<Rightarrow> string" where
  "firstMatch [] data firstNonWS = ''application/octet-stream''"
| "firstMatch (sig # sigs) data firstNonWS =
     (let ct = sigMatch sig data firstNonWS
      in if ct \<noteq> [] then ct else firstMatch sigs data firstNonWS)"

definition DetectContentType :: "string \<Rightarrow> string" where
  "DetectContentType data =
     (let d = take 512 data;
          firstNonWS = length (takeWhile isWS d)
      in firstMatch sniffSignatures d firstNonWS)"

definition bodyAllowedForStatus :: "nat \<Rightarrow> bool" where
  "bodyAllowedForStatus status =
     (\<not> (100 \<le> status \<and> status \<le> 199) \<and> status \<noteq> 204 \<and> status \<noteq> 304)"

text \<open>The header map at the moment the status is committed.\<close>

fun headerAtCommit :: "(string \<rightharpoonup> string) \<Rightarrow> call list \<Rightarrow> (string \<rightharpoonup> string)" where
  "headerAtCommit h [] = h"
| "headerAtCommit h (HeaderSet k v # cs) = headerAtCommit (h(k \<mapsto> v)) cs"
| "headerAtCommit h (WriteHeader code # cs) = h"
| "headerAtCommit h (Write bytes # cs) = h"

text \<open>The \<open>Content-Type\<close> header of the response, \<open>None\<close> when it has none.\<close>

definition contentTypeOf :: "call list \<Rightarrow> string option" where
  "contentTypeOf cs =
     (let h = headerAtCommit Map.empty cs
      in case h ''Content-Type'' of
           Some v \<Rightarrow> if statusOf cs = 304 then None else Some v
         | None \<Rightarrow>
             if bodyAllowedForStatus (statusOf cs)
                \<and> h ''Content-Encoding'' \<in> {None, Some []}
                \<and> h ''Transfer-Encoding'' \<in> {None, Some []}
                \<and> bodyOf cs \<noteq> []
             then Some (DetectContentType (bodyOf cs))
             else None)"

section \<open>sharedir.go\<close>

subsection \<open>Globals and the safe path\<close>

text \<open>
  The package variables \<^verbatim>\<open>root\<close>, \<^verbatim>\<open>recursive\<close> and \<^verbatim>\<open>home\<close>, set once by
  \<^verbatim>\<open>main\<close>, and the struct \<^verbatim>\<open>safePath\<close> (its field \<^verbatim>\<open>abs\<close> is \<open>abs_p\<close> here).
\<close>

record Globals =
  root :: string
  recursive :: bool
  home :: string

record safePath =
  abs_p :: string
  rel :: string

definition templateFp :: string where
  "templateFp = ''template.html''"

text \<open>
  \<^verbatim>\<open>parseSafePath\<close>: \<open>None\<close> is the nil result. A fresh \<^verbatim>\<open>safePath\<close> has the empty
  string in both fields, so \<open>rel\<close> stays empty when the absolute path is the root.
\<close>

definition parseSafePath :: "System \<Rightarrow> Globals \<Rightarrow> string \<Rightarrow> safePath option" where
  "parseSafePath sys g raw =
     (let raw1 = TrimPrefix raw ''/'';
          raw2 = UnescapeString sys raw1;
          raw3 = ReplaceAll raw2 ''%20'' '' '';
          raw4 = ReplaceAll raw3 ''%28'' ''('';
          raw5 = ReplaceAll raw4 ''%29'' '')''
      in case Abs (Getwd sys) (Join [root g, raw5]) of
           None \<Rightarrow> None
         | Some a \<Rightarrow>
             if \<not> HasPrefix a (root g) then None
             else if a \<noteq> root g
               then Some \<lparr>abs_p = a, rel = TrimPrefix (TrimPrefix a (root g)) ''/''\<rparr>
               else Some \<lparr>abs_p = a, rel = []\<rparr>)"

definition guessMimeType :: "System \<Rightarrow> string \<Rightarrow> string" where
  "guessMimeType sys fp =
     (let ext = Ext fp
      in if ext \<noteq> [] then
           (let mimet = TypeByExtension sys ext
            in if mimet \<noteq> [] then mimet else ''application/octet-stream'')
         else ''application/octet-stream'')"

subsection \<open>The handlers\<close>

definition serveFailure :: "ResponseWriter \<Rightarrow> nat \<Rightarrow> string \<Rightarrow> ResponseWriter" where
  "serveFailure w code message =
     (let w1 = doWriteHeader code w;
          w2 = doHeaderSet ''Content-Type'' ''text/plain; charset=utf-8'' w1
      in fst (doWrite message w2))"

definition serveFile :: "System \<Rightarrow> ResponseWriter \<Rightarrow> safePath \<Rightarrow> ResponseWriter" where
  "serveFile sys w p =
     (case ReadFile sys (abs_p p) of
        None \<Rightarrow> serveFailure w StatusInternalServerError ''server error''
      | Some data \<Rightarrow>
          (case doWrite data w of
             (w1, ok) \<Rightarrow>
               if \<not> ok then serveFailure w1 StatusInternalServerError ''server error''
               else doHeaderSet ''Content-Type'' (guessMimeType sys (rel p)) w1))"

definition serveIcon :: "System \<Rightarrow> Globals \<Rightarrow> ResponseWriter \<Rightarrow> ResponseWriter" where
  "serveIcon sys g w = serveFile sys w \<lparr>abs_p = Join [home g, ''sharedir.ico''], rel = []\<rparr>"

text \<open>
  \<^verbatim>\<open>tmp.Execute(w, data)\<close> writes the template's output to the response and reports
  an error when the template fails or a write does; after a failed write nothing
  more is written.
\<close>

definition Execute :: "Template \<Rightarrow> ResponseWriter \<Rightarrow> DirData \<Rightarrow> ResponseWriter \<times> bool" where
  "Execute tmp w data =
     (case tmp data of
        (chunks, ok) \<Rightarrow>
          if broken w \<and> chunks \<noteq> []
          then (w\<lparr>calls := calls w @ [Write (hd chunks)]\<rparr>, False)
          else (w\<lparr>calls := calls w @ map Write chunks\<rparr>, ok))"

text \<open>The two functions \<^verbatim>\<open>serveDir\<close> registers with the template.\<close>

definition dirFuncs :: "System \<Rightarrow> safePath \<Rightarrow> FuncMap" where
  "dirFuncs sys p =
     \<lparr>ttos = Format sys ''2006-01-02 15:04:05'',
      href = (\<lambda>n. if rel p = [] then n else Join [rel p, n])\<rparr>"

definition serveDir :: "System \<Rightarrow> Globals \<Rightarrow> ResponseWriter \<Rightarrow> safePath \<Rightarrow> outcome" where
  "serveDir sys g w p =
     (case ReadDir sys (abs_p p) of
        None \<Rightarrow> Fatal ''read dir'' w
      | Some entries \<Rightarrow>
          let data = \<lparr>DirName = ''/'' @ rel p, Content = entries\<rparr>
          in (case ParseFiles sys (dirFuncs sys p) (Join [home g, templateFp]) of
                None \<Rightarrow> Fatal ''parse template'' w
              | Some tmp \<Rightarrow>
                  (case Execute tmp w data of
                     (w1, ok) \<Rightarrow>
                       if \<not> ok then Fatal ''execute template'' w1
                       else Returned (doHeaderSet ''Content-Type'' ''text/html; charset=utf-8'' w1))))"

text \<open>
  \<^verbatim>\<open>serve\<close>, the entry point of every request; its argument is \<^verbatim>\<open>r.RequestURI\<close>.
\<close>

definition serve :: "System \<Rightarrow> Globals \<Rightarrow> ResponseWriter \<Rightarrow> string \<Rightarrow> outcome" where
  "serve sys g w RequestURI =
     (if RequestURI = ''/~favicon.ico'' then Returned (serveIcon sys g w)
      else
        (case parseSafePath sys g RequestURI of
           None \<Rightarrow> Returned (serveFailure w StatusBadRequest ''invalid path'')
         | Some sp \<Rightarrow>
             (case Stat sys (abs_p sp) of
                None \<Rightarrow> Returned (serveFailure w StatusNotFound ''invalid path'')
              | Some fi \<Rightarrow>
                  if IsDir fi then
                    (if recursive g \<or> abs_p sp = root g then serveDir sys g w sp
                     else Returned (serveFailure w StatusUnauthorized ''unauthorized''))
                  else
                    (if recursive g \<or> Dir (abs_p sp) = root g
                     then Returned (serveFile sys w sp)
                     else Returned (serveFailure w StatusUnauthorized ''unauthorized'')))))"

subsection \<open>Start-up\<close>

text \<open>
  The argument loop of \<^verbatim>\<open>main\<close> over \<^verbatim>\<open>os.Args[1:]\<close>; the state is the recursion
  flag, the address and the root. \<open>None\<close> is the exit with status 1 on a \<^verbatim>\<open>-a\<close> that
  has no argument.
\<close>

fun parseArgs :: "string list \<Rightarrow> bool \<times> string \<times> string \<Rightarrow> (bool \<times> string \<times> string) option" where
  "parseArgs [] st = Some st"
| "parseArgs [a] (r, addr, dir) =
     (if a = ''-r'' then Some (True, addr, dir)
      else if a = ''-a'' then None
      else Some (r, addr, a))"
| "parseArgs (a # b # rest) (r, addr, dir) =
     (if a = ''-r'' then parseArgs (b # rest) (True, addr, dir)
      else if a = ''-a'' then parseArgs rest (r, b, dir)
      else parseArgs (b # rest) (r, addr, a))"

text \<open>
  \<^verbatim>\<open>main\<close> up to the point where the server starts: the exit status, or the globals
  and the address to listen on.
\<close>

datatype 'a startup = Exit nat | Started 'a string

definition main :: "System \<Rightarrow> string list \<Rightarrow> Globals startup" where
  "main sys args =
     (if args \<noteq> [] \<and> hd args \<in> {''help'', ''--help'', ''-h''} then Exit 0
      else
        (case parseArgs args (False, '':2022'', []) of
           None \<Rightarrow> Exit 1
         | Some (r, addr, dir) \<Rightarrow>
             (case Abs (Getwd sys) dir of
                None \<Rightarrow> Exit 1
              | Some rt \<Rightarrow>
                  (case Executable sys of
                     None \<Rightarrow> Exit 1
                   | Some exe \<Rightarrow>
                       (case EvalSymlinks sys exe of
                          None \<Rightarrow> Exit 1
                        | Some exe' \<Rightarrow>
                            Started \<lparr>root = rt, recursive = r, home = SplitDir exe'\<rparr> addr)))))"

section \<open>The earlier variant\<close>

text \<open>
  The second source file has the package variables \<^verbatim>\<open>rootDir\<close> and \<^verbatim>\<open>recursive\<close>
  and no safe-path struct: \<^verbatim>\<open>serve\<close> works on the absolute target path directly.
\<close>

record Globals_u =
  rootDir :: string
  recursive_u :: bool

subsection \<open>The page constants\<close>

definition txtHead :: string where
  \<open>txtHead =
     ''\<newline>'' @
     ''<html>\<newline>'' @
     ''  <head>\<newline>'' @
     ''    <title>sharedir: %s</title>\<newline>'' @
     [CHR 0x09] @ ''<style type="text/css">\<newline>'' @
     [CHR 0x09] @ ''table th{ text-align: justify; }\<newline>'' @
     [CHR 0x09] @ ''table td{ text-align: justify; }\<newline>'' @
     [CHR 0x09] @ ''</style>\<newline>'' @
     ''  </head>\<newline>'' @
     ''  <body>\<newline>'' @
     ''  <h2 style="color:grey;">index: %s</h2>\<newline>'' @
     ''  <table width="80%" style="color:grey;">\<newline>'' @
     ''    <thead>\<newline>'' @
     ''      <th>Filename</th>\<newline>'' @
     ''      <th>Size</th>\<newline>'' @
     ''      <th>Modified</th>\<newline>'' @
     ''    </thead>\<newline>'' @
     ''    <tbody>\<newline>''\<close>

definition txtTail :: string where
  \<open>txtTail =
     ''    </tbody>\<newline>'' @
     ''  </table>\<newline>'' @
     ''  </body>\<newline>'' @
     ''</html>\<newline>''\<close>

definition txtFileEntry :: string where
  \<open>txtFileEntry =
     ''      <tr><td><a href="%s">%s</a></td><td>%d</td><td>%s</td></tr>'' @ [CHR 0x5C] @ ''n\<newline>''\<close>

definition txtDirEntry :: string where
  \<open>txtDirEntry =
     ''      <tr><td><a href="%s">%s/</a></td><td>-*-</td><td>%s</td></tr>'' @ [CHR 0x5C] @ ''n\<newline>''\<close>

definition UnixDate :: string where
  "UnixDate = ''Mon Jan _2 15:04:05 MST 2006''"

subsection \<open>The handlers\<close>

definition getMimeType :: "System \<Rightarrow> string \<Rightarrow> string" where
  "getMimeType sys fn =
     (let parts = splitSep (CHR ''.'') fn;
          mtype = (if length parts > 1 then TypeByExtension sys (''.'' @ last parts) else [])
      in if mtype = [] then ''application/octet-stream'' else mtype)"

definition serveReject :: "ResponseWriter \<Rightarrow> nat \<Rightarrow> string \<Rightarrow> ResponseWriter" where
  "serveReject w s msg =
     (let w1 = doWriteHeader s w;
          w2 = doHeaderSet ''Content-Type'' ''text/plain; charset=utf-8'' w1
      in fst (doWrite msg w2))"

definition serveFile_u :: "System \<Rightarrow> ResponseWriter \<Rightarrow> string \<Rightarrow> ResponseWriter" where
  "serveFile_u sys w fp =
     (let mtype = getMimeType sys fp
      in case ReadFile sys fp of
           None \<Rightarrow> serveReject w StatusInternalServerError ''error''
         | Some data \<Rightarrow>
             (case doWrite data w of
                (w1, ok) \<Rightarrow>
                  if \<not> ok then serveReject w1 StatusInternalServerError ''error''
                  else doHeaderSet ''Content-Type'' mtype w1))"

text \<open>
  One pass of the loop over the directory entries: an entry whose \<^verbatim>\<open>Info()\<close> fails is
  skipped, a directory and a file each add their row to the page built so far.
\<close>

definition addEntry :: "System \<Rightarrow> string \<Rightarrow> string \<Rightarrow> DirEntry \<Rightarrow> string" where
  "addEntry sys subdir res e =
     (case Info e of
        None \<Rightarrow> res
      | Some info \<Rightarrow>
          if IsDir info then
            res @ Sprintf sys txtDirEntry
                    [S (Join [subdir, Name e]), S (Name e), S (Format sys UnixDate (ModTime info))]
          else
            res @ Sprintf sys txtFileEntry
                    [S (Join [subdir, Name e]), S (Name e), D (Size info),
                     S (Format sys UnixDate (ModTime info))])"

definition serveDir_u :: "System \<Rightarrow> ResponseWriter \<Rightarrow> string \<Rightarrow> string \<Rightarrow> outcome" where
  "serveDir_u sys w dir subdir =
     (case ReadDir sys dir of
        None \<Rightarrow> Fatal ''read fsDir'' w
      | Some entries \<Rightarrow>
          let res0 = Sprintf sys txtHead [S subdir, S subdir];
              res1 = foldl (addEntry sys subdir) res0 entries;
              res = res1 @ txtTail;
              w1 = doWriteHeader StatusOK w;
              w2 = doHeaderSet ''Content-Type'' ''text/html; charset=utf-8'' w1
          in (case doWrite res w2 of
                (w3, ok) \<Rightarrow> if \<not> ok then Fatal ''write response'' w3 else Returned w3))"

definition serve_u :: "System \<Rightarrow> Globals_u \<Rightarrow> ResponseWriter \<Rightarrow> string \<Rightarrow> outcome" where
  "serve_u sys g w RequestURI =
     (case Abs (Getwd sys) (Join [rootDir g, RequestURI]) of
        None \<Rightarrow> Returned (serveReject w StatusBadRequest ''bad target path'')
      | Some target \<Rightarrow>
          if \<not> HasPrefix target (rootDir g)
            then Returned (serveReject w StatusUnauthorized ''unauthorized path'')
          else
            (case Stat sys target of
               None \<Rightarrow> Returned (serveReject w StatusNotFound ''target not found'')
             | Some info \<Rightarrow>
                 if \<not> IsDir info then Returned (serveFile_u sys w target)
                 else serveDir_u sys w target RequestURI))"

subsection \<open>Start-up\<close>

text \<open>
  The argument loop of \<^verbatim>\<open>main\<close>; the state is the recursion flag, the address and
  the directory. \<open>None\<close> is the exit with status 0 after the usage line.
\<close>

fun parseArgs_u :: "string list \<Rightarrow> bool \<times> string \<times> string \<Rightarrow> (bool \<times> string \<times> string) option" where
  "parseArgs_u [] st = Some st"
| "parseArgs_u (a # rest) (r, addr, dir) =
     (if a = ''help'' \<or> a = ''--help'' \<or> a = ''-h'' then None
      else if a = ''-r'' then parseArgs_u rest (True, addr, dir)
      else if addr = [] then parseArgs_u rest (r, a, dir)
      else parseArgs_u rest (r, addr, a))"

definition main_u :: "System \<Rightarrow> string list \<Rightarrow> Globals_u startup" where
  "main_u sys args =
     (case parseArgs_u args (False, [], []) of
        None \<Rightarrow> Exit 0
      | Some (r, addr, dir) \<Rightarrow>
          let dir1 = (if addr \<noteq> [] \<and> dir = [] then addr else dir);
              addr1 = (if addr = [] then '':2022'' else addr);
              dir2 = (if dir1 = [] then ''.'' else dir1)
          in (case Abs (Getwd sys) dir2 of
                None \<Rightarrow> Exit 1
              | Some rt \<Rightarrow> Started \<lparr>rootDir = rt, recursive_u = r\<rparr> addr1))"

section \<open>A sample installation\<close>

text \<open>
  The layout of the specification's end-to-end example, with a sibling of the shared
  directory, an unreadable file and an unreadable directory added: the shared directory
  \<open>/data\<close> holds \<open>a.txt\<close>, \<open>index.html\<close>, \<open>locked.txt\<close> (no read permission), the
  directory \<open>sub\<close> with \<open>b.txt\<close>, and the directory \<open>sealed\<close> (no read permission);
  beside it lies the file \<open>/data-secret\<close>. The program is installed in
  \<open>/opt/sharedir\<close>. The sample's \<open>Format\<close> and \<open>Sprintf\<close> return the layout and the
  format unchanged and its entity decoder is the identity: nothing below depends on
  the text of a listing, and no sample request holds an ampersand.
\<close>

definition fileOf :: "int \<Rightarrow> FileInfo" where
  "fileOf n = \<lparr>IsDir = False, Size = n, ModTime = 0\<rparr>"

definition dirOf :: FileInfo where
  "dirOf = \<lparr>IsDir = True, Size = 4096, ModTime = 0\<rparr>"

definition sampleStat :: "string \<Rightarrow> FileInfo option" where
  "sampleStat path =
     (if path = ''/data'' then Some dirOf
      else if path = ''/data/a.txt'' then Some (fileOf 5)
      else if path = ''/data/index.html'' then Some (fileOf 4)
      else if path = ''/data/locked.txt'' then Some (fileOf 3)
      else if path = ''/data/sub'' then Some dirOf
      else if path = ''/data/sub/b.txt'' then Some (fileOf 4)
      else if path = ''/data/sealed'' then Some dirOf
      else if path = ''/data-secret'' then Some (fileOf 6)
      else None)"

definition sampleReadFile :: "string \<Rightarrow> string option" where
  "sampleReadFile path =
     (if path = ''/data/a.txt'' then Some ''alpha''
      else if path = ''/data/index.html'' then Some ''<p>''
      else if path = ''/data/sub/b.txt'' then Some ''beta''
      else if path = ''/data-secret'' then Some ''secret''
      else if path = ''/opt/sharedir/sharedir.ico'' then Some ''icon''
      else None)"

definition sampleReadDir :: "string \<Rightarrow> DirEntry list option" where
  "sampleReadDir path =
     (if path = ''/data'' then
        Some [\<lparr>Name = ''a.txt'', Info = Some (fileOf 5)\<rparr>, \<lparr>Name = ''sub'', Info = Some dirOf\<rparr>]
      else if path = ''/data/sub'' then Some [\<lparr>Name = ''b.txt'', Info = Some (fileOf 4)\<rparr>]
      else None)"

definition sampleTypes :: "string \<Rightarrow> string" where
  "sampleTypes ext =
     (if ext = ''.html'' then ''text/html; charset=utf-8''
      else if ext = ''.txt'' then ''text/plain; charset=utf-8''
      else [])"

text \<open>
  A template that prints the directory name and the link of every entry; it is found
  only in the program's home directory.
\<close>

definition sampleParse :: "FuncMap \<Rightarrow> string \<Rightarrow> Template option" where
  "sampleParse funcs path =
     (if path = ''/opt/sharedir/template.html''
      then Some (\<lambda>d. (DirName d # map (\<lambda>e. href funcs (Name e)) (Content d), True))
      else None)"

definition sample :: System where
  "sample =
     \<lparr>Getwd = Some ''/'',
      Stat = sampleStat,
      ReadFile = sampleReadFile,
      ReadDir = sampleReadDir,
      unescapeEntities = (\<lambda>s. s),
      TypeByExtension = sampleTypes,
      ParseFiles = sampleParse,
      Format = (\<lambda>layout t. layout),
      Sprintf = (\<lambda>format args. format),
      Executable = Some ''/opt/sharedir/sharedir'',
      EvalSymlinks = Some\<rparr>"

definition flat :: Globals where
  "flat = \<lparr>root = ''/data'', recursive = False, home = ''/opt/sharedir/''\<rparr>"

definition deep :: Globals where
  "deep = \<lparr>root = ''/data'', recursive = True, home = ''/opt/sharedir/''\<rparr>"

definition flat_u :: Globals_u where
  "flat_u = \<lparr>rootDir = ''/data'', recursive_u = False\<rparr>"

definition fresh :: ResponseWriter where
  "fresh = \<lparr>calls = [], broken = False\<rparr>"

section \<open>Notions used to state and prove the properties\<close>

text \<open>
  The request path after the decoding steps of \<^verbatim>\<open>parseSafePath\<close>, and the absolute
  path it resolves to (\<open>None\<close> when \<^verbatim>\<open>filepath.Abs\<close> fails).
\<close>

definition decoded :: "System \<Rightarrow> string \<Rightarrow> string" where
  "decoded sys raw =
     ReplaceAll (ReplaceAll (ReplaceAll (UnescapeString sys (TrimPrefix raw ''/''))
       ''%20'' '' '') ''%28'' ''('') ''%29'' '')''"

definition resolved :: "System \<Rightarrow> Globals \<Rightarrow> string \<Rightarrow> string option" where
  "resolved sys g raw = Abs (Getwd sys) (Join [root g, decoded sys raw])"

text \<open>
  The containment invariant of the specification: the path is the root, or starts with
  the root followed by a separator.
\<close>

definition contained :: "string \<Rightarrow> string \<Rightarrow> bool" where
  "contained rt a = (a = rt \<or> HasPrefix a (rt @ ''/''))"

text \<open>A string without two separators in a row, and a path element.\<close>

fun nodbl :: "string \<Rightarrow> bool" where
  "nodbl (a # b # r) = (\<not> (a = CHR ''/'' \<and> b = CHR ''/'') \<and> nodbl (b # r))"
| "nodbl [a] = True"
| "nodbl [] = True"

definition element :: "string \<Rightarrow> bool" where
  "element e = (e \<noteq> [] \<and> CHR ''/'' \<notin> set e)"

text \<open>
  Paths given by their elements: a list of elements none of which is empty, \<open>.\<close> or
  \<open>..\<close>, and the rooted path that has exactly these elements.
\<close>

definition ordinary :: "string list \<Rightarrow> bool" where
  "ordinary es = (\<forall>e \<in> set es. element e \<and> e \<noteq> ''.'' \<and> e \<noteq> ''..'')"

definition pathOf :: "string list \<Rightarrow> string" where
  "pathOf es = CHR ''/'' # joinSep ''/'' es"

text \<open>
  The status and the body a returned handler has sent; a handler that ended the
  process has completed no response.
\<close>

definition statusSent :: "outcome \<Rightarrow> nat option" where
  "statusSent out = (case out of Returned w \<Rightarrow> Some (statusOf (calls w)) | Fatal msg w \<Rightarrow> None)"

definition bodySent :: "outcome \<Rightarrow> string option" where
  "bodySent out = (case out of Returned w \<Rightarrow> Some (bodyOf (calls w)) | Fatal msg w \<Rightarrow> None)"

definition contentTypeSent :: "outcome \<Rightarrow> string option" where
  "contentTypeSent out =
     (case out of Returned w \<Rightarrow> contentTypeOf (calls w) | Fatal msg w \<Rightarrow> None)"

section \<open>Properties of the path functions\<close>

lemma nodbl_double: "\<not> nodbl (u @ CHR ''/'' # CHR ''/'' # v)"
  by (induction u rule: nodbl.induct) auto

lemma nodbl_sepfree_append: "CHR ''/'' \<notin> set e \<Longrightarrow> nodbl (e @ t) = nodbl t"
proof (induction e)
  case Nil
  then show ?case by simp
next
  case (Cons a e)
  then show ?case by (cases "e @ t") auto
qed

lemma splitSep_nonempty: "splitSep c s \<noteq> []"
  by (induction s) (auto split: list.splits)

lemma splitSep_sepfree: "e \<in> set (splitSep c s) \<Longrightarrow> c \<notin> set e"
  by (induction s arbitrary: e) (auto split: list.splits if_splits)

lemma cleanStep_elements:
  "\<forall>x \<in> set stk. element x \<Longrightarrow> CHR ''/'' \<notin> set e \<Longrightarrow> \<forall>x \<in> set (cleanStep r stk e). element x"
  by (auto simp: cleanStep_def element_def split: list.splits)

lemma foldl_cleanStep_elements:
  "\<forall>x \<in> set stk. element x \<Longrightarrow> \<forall>e \<in> set es. CHR ''/'' \<notin> set e \<Longrightarrow>
   \<forall>x \<in> set (foldl (cleanStep r) stk es). element x"
proof (induction es arbitrary: stk)
  case Nil
  then show ?case by simp
next
  case (Cons e es)
  have "\<forall>x \<in> set (cleanStep r stk e). element x"
    using Cons.prems by (intro cleanStep_elements) auto
  then show ?case using Cons by simp
qed

lemma joinSep_Cons:
  "joinSep sep (e # es) = (if es = [] then e else e @ sep @ joinSep sep es)"
  by (cases es) auto

lemma nodbl_sep_element:
  "element e \<Longrightarrow> nodbl (CHR ''/'' # e @ t) = nodbl t"
proof -
  assume el: "element e"
  then obtain a r where e: "e = a # r" and a: "a \<noteq> CHR ''/''" and r: "CHR ''/'' \<notin> set (a # r)"
    by (cases e) (auto simp: element_def)
  have "nodbl (CHR ''/'' # e @ t) = nodbl (e @ t)" using e a by simp
  also have "\<dots> = nodbl t" using nodbl_sepfree_append[OF r] e by simp
  finally show ?thesis .
qed

lemma joinSep_elements_nodbl:
  "\<forall>x \<in> set es. element x \<Longrightarrow> nodbl (CHR ''/'' # joinSep ''/'' es)"
proof (induction es)
  case Nil
  then show ?case by simp
next
  case (Cons e es)
  then have e: "element e" and ih: "nodbl (CHR ''/'' # joinSep ''/'' es)" by auto
  show ?case
  proof (cases "es = []")
    case True
    then show ?thesis using nodbl_sep_element[OF e, of "[]"] by simp
  next
    case False
    then show ?thesis using nodbl_sep_element[OF e] ih by (simp add: joinSep_Cons)
  qed
qed

lemma last_element: "element e \<Longrightarrow> last e \<noteq> CHR ''/''"
  unfolding element_def using last_in_set by metis

lemma joinSep_elements_last:
  "\<forall>x \<in> set es. element x \<Longrightarrow> es \<noteq> [] \<Longrightarrow>
   joinSep ''/'' es \<noteq> [] \<and> last (joinSep ''/'' es) \<noteq> CHR ''/''"
proof (induction es)
  case Nil
  then show ?case by simp
next
  case (Cons e es)
  then have e: "element e" by simp
  show ?case
  proof (cases "es = []")
    case True
    then show ?thesis using e last_element[OF e] by (simp add: element_def)
  next
    case False
    then show ?thesis using Cons by (simp add: joinSep_Cons)
  qed
qed

lemma Clean_elements:
  "\<forall>x \<in> set (rev (foldl (cleanStep r) [] (splitSep (CHR ''/'') path))). element x"
  using foldl_cleanStep_elements[of "[]" "splitSep (CHR ''/'') path" r] splitSep_sepfree
  by auto

lemma nodbl_tl: "nodbl (a # s) \<Longrightarrow> nodbl s"
  by (cases s) auto

lemma Clean_nodbl: "nodbl (Clean path)"
  using joinSep_elements_nodbl[OF Clean_elements, of _ path]
  by (auto simp: Clean_def Let_def dest: nodbl_tl)

lemma Clean_no_trailing: "Clean path = u @ ''/'' \<Longrightarrow> u = []"
proof -
  assume a: "Clean path = u @ ''/''"
  let ?r = "hd path = CHR ''/''"
  let ?out = "rev (foldl (cleanStep ?r) [] (splitSep (CHR ''/'') path))"
  have el: "\<forall>x \<in> set ?out. element x" by (rule Clean_elements)
  show ?thesis
  proof (cases "?out = []")
    case True
    then show ?thesis using a by (auto simp: Clean_def Let_def split: if_splits)
  next
    case False
    from joinSep_elements_last[OF el False]
    have "joinSep ''/'' ?out \<noteq> []" "last (joinSep ''/'' ?out) \<noteq> CHR ''/''" by auto
    moreover have "last (Clean path) = CHR ''/''" using a by simp
    ultimately show ?thesis using False
      by (auto simp: Clean_def Let_def split: if_splits)
  qed
qed

lemma Clean_nonempty: "Clean path \<noteq> []"
proof -
  let ?r = "hd path = CHR ''/''"
  let ?out = "rev (foldl (cleanStep ?r) [] (splitSep (CHR ''/'') path))"
  have "?out \<noteq> [] \<Longrightarrow> joinSep ''/'' ?out \<noteq> []"
    using joinSep_elements_last[OF Clean_elements] by blast
  then show ?thesis by (auto simp: Clean_def Let_def)
qed

lemma Abs_shape:
  assumes "Abs wd p = Some a"
  shows "a = [] \<or> (\<exists>x. a = Clean x)"
  using assms by (auto simp: Abs_def split: if_splits option.splits)

lemma Abs_nodbl: "Abs wd p = Some a \<Longrightarrow> nodbl a"
  using Abs_shape Clean_nodbl by fastforce

lemma Abs_no_trailing: "Abs wd p = Some a \<Longrightarrow> a = u @ ''/'' \<Longrightarrow> u = []"
  using Abs_shape Clean_no_trailing by fastforce

lemma parseSafePath_resolved:
  "parseSafePath sys g raw =
     (case resolved sys g raw of
        None \<Rightarrow> None
      | Some a \<Rightarrow>
          if \<not> HasPrefix a (root g) then None
          else Some \<lparr>abs_p = a,
                     rel = (if a \<noteq> root g then TrimPrefix (TrimPrefix a (root g)) ''/'' else [])\<rparr>)"
  by (simp add: parseSafePath_def resolved_def decoded_def Let_def split: option.splits)

lemma TrimPrefix_append: "TrimPrefix (p @ s) p = s"
  by (simp add: TrimPrefix_def HasPrefix_def)

lemma HasPrefix_sep: "HasPrefix s ''/'' = (\<exists>t. s = CHR ''/'' # t)"
  by (cases s) (auto simp: HasPrefix_def)

lemma TrimPrefix_sep: "TrimPrefix s ''/'' = (if HasPrefix s ''/'' then tl s else s)"
  by (cases s) (auto simp: TrimPrefix_def HasPrefix_def)

lemma rel_shape:
  assumes nd: "nodbl (rt @ s)" and tr: "\<And>u. rt @ s = u @ ''/'' \<Longrightarrow> u = []"
  shows "\<not> HasPrefix (TrimPrefix s ''/'') ''/''"
    and "rt \<noteq> [] \<Longrightarrow> s \<noteq> [] \<Longrightarrow> TrimPrefix s ''/'' \<noteq> []"
    and "s = TrimPrefix s ''/'' \<or> s = ''/'' @ TrimPrefix s ''/''"
proof -
  show "\<not> HasPrefix (TrimPrefix s ''/'') ''/''"
  proof
    assume h: "HasPrefix (TrimPrefix s ''/'') ''/''"
    show False
    proof (cases "HasPrefix s ''/''")
      case True
      then obtain t where "s = CHR ''/'' # CHR ''/'' # t"
        using h by (auto simp: TrimPrefix_sep HasPrefix_sep)
      then show False using nd nodbl_double[of rt t] by simp
    next
      case False
      then show False using h by (simp add: TrimPrefix_sep)
    qed
  qed
  show "TrimPrefix s ''/'' \<noteq> []" if rt: "rt \<noteq> []" and s: "s \<noteq> []"
  proof
    assume e: "TrimPrefix s ''/'' = []"
    then have "s = ''/''" using s by (cases s) (auto simp: TrimPrefix_sep HasPrefix_sep split: if_splits)
    then have "rt @ s = rt @ ''/''" by simp
    from tr[OF this] rt show False by simp
  qed
  show "s = TrimPrefix s ''/'' \<or> s = ''/'' @ TrimPrefix s ''/''"
    by (cases s) (auto simp: TrimPrefix_sep HasPrefix_sep)
qed

lemma splitSep_notin: "c \<notin> set s \<Longrightarrow> splitSep c s = [s]"
  by (induction s) auto

lemma splitSep_last_sep:
  "c \<notin> set v \<Longrightarrow> splitSep c (u @ c # v) = splitSep c u @ [v]"
proof (induction u)
  case Nil
  then show ?case by (simp add: splitSep_notin)
next
  case (Cons x u)
  then show ?case by (cases "splitSep c u") (auto simp: splitSep_nonempty)
qed

lemma takeWhile_neq_append:
  "c \<notin> set xs \<Longrightarrow> takeWhile (\<lambda>x. x \<noteq> c) (xs @ ys) = xs @ takeWhile (\<lambda>x. x \<noteq> c) ys"
  by (induction xs) auto

lemma Ext_last_dot:
  assumes "CHR ''.'' \<notin> set e" and "CHR ''/'' \<notin> set e"
  shows "Ext (p @ ''.'' @ e) = ''.'' @ e"
proof -
  have base: "takeWhile (\<lambda>c. c \<noteq> CHR ''/'') (rev (p @ ''.'' @ e))
        = rev e @ CHR ''.'' # takeWhile (\<lambda>c. c \<noteq> CHR ''/'') (rev p)"
    using assms(2) by (simp add: takeWhile_neq_append)
  have "takeWhile (\<lambda>c. c \<noteq> CHR ''.'') (rev e @ CHR ''.'' # takeWhile (\<lambda>c. c \<noteq> CHR ''/'') (rev p)) = rev e"
    using assms(1) by (simp add: takeWhile_neq_append)
  then show ?thesis unfolding Ext_def base by (simp add: Let_def)
qed

lemma Ext_no_dot:
  assumes "CHR ''.'' \<notin> set b" and "CHR ''/'' \<notin> set b"
  shows "Ext b = []" and "Ext (d @ ''/'' @ b) = []"
proof -
  have "set (takeWhile (\<lambda>c. c \<noteq> CHR ''/'') (rev b)) \<subseteq> set b"
    using set_takeWhileD by fastforce
  then show "Ext b = []" using assms(1) by (auto simp: Ext_def Let_def)
  have "takeWhile (\<lambda>c. c \<noteq> CHR ''/'') (rev (d @ ''/'' @ b)) = rev b"
    using assms(2) by (simp add: takeWhile_neq_append)
  then show "Ext (d @ ''/'' @ b) = []" using assms(1) by (simp add: Ext_def Let_def)
qed

lemma getMimeType_last_dot:
  assumes "CHR ''.'' \<notin> set e"
  shows "getMimeType sys (p @ ''.'' @ e) =
           (if TypeByExtension sys (''.'' @ e) = [] then ''application/octet-stream''
            else TypeByExtension sys (''.'' @ e))"
  using assms splitSep_last_sep[of "CHR ''.''" e p] splitSep_nonempty[of "CHR ''.''" p]
  by (cases "splitSep (CHR ''.'') p") (auto simp: getMimeType_def Let_def)

lemma getMimeType_no_dot:
  "CHR ''.'' \<notin> set fn \<Longrightarrow> getMimeType sys fn = ''application/octet-stream''"
  by (simp add: getMimeType_def splitSep_notin)

lemma guessMimeType_last_dot:
  assumes "CHR ''.'' \<notin> set e" and "CHR ''/'' \<notin> set e"
  shows "guessMimeType sys (p @ ''.'' @ e) =
           (if TypeByExtension sys (''.'' @ e) = [] then ''application/octet-stream''
            else TypeByExtension sys (''.'' @ e))"
  using Ext_last_dot[OF assms, of p] by (simp add: guessMimeType_def Let_def)

lemma getMimeType_dotted_dir:
  assumes tbl: "\<forall>k. CHR ''/'' \<in> set k \<longrightarrow> TypeByExtension sys k = []"
    and b: "CHR ''.'' \<notin> set b"
  shows "getMimeType sys (d @ ''/'' @ b) = ''application/octet-stream''"
proof (cases "CHR ''.'' \<in> set d")
  case False
  then show ?thesis using b by (simp add: getMimeType_no_dot)
next
  case True
  then obtain u v where d: "d = u @ CHR ''.'' # v" and v: "CHR ''.'' \<notin> set v"
    using split_list_last by fastforce
  have e: "CHR ''.'' \<notin> set (v @ ''/'' @ b)" using v b by simp
  have "getMimeType sys (u @ ''.'' @ (v @ ''/'' @ b)) = ''application/octet-stream''"
    unfolding getMimeType_last_dot[OF e] using tbl by simp
  then show ?thesis by (simp add: d)
qed

subsection \<open>Paths as lists of elements\<close>

lemma splitSep_Cons_sep: "splitSep c (c # s) = [] # splitSep c s"
  by simp

lemma splitSep_append_sep:
  "c \<notin> set e \<Longrightarrow> splitSep c (e @ c # s) = e # splitSep c s"
  by (induction e) (auto simp: splitSep_nonempty split: list.splits)

lemma splitSep_joinSep:
  "\<forall>e \<in> set es. CHR ''/'' \<notin> set e \<Longrightarrow> es \<noteq> [] \<Longrightarrow> splitSep (CHR ''/'') (joinSep ''/'' es) = es"
proof (induction es)
  case Nil
  then show ?case by simp
next
  case (Cons e es)
  show ?case
  proof (cases "es = []")
    case True
    then show ?thesis using Cons.prems by (simp add: splitSep_notin)
  next
    case False
    then have "splitSep (CHR ''/'') (joinSep ''/'' es) = es" using Cons by simp
    then show ?thesis using False Cons.prems
      by (simp add: joinSep_Cons splitSep_append_sep)
  qed
qed

lemma foldl_cleanStep_ordinary:
  "ordinary es \<Longrightarrow> ordinary stk \<Longrightarrow> foldl (cleanStep r) stk es = rev es @ stk"
proof (induction es arbitrary: stk)
  case Nil
  then show ?case by simp
next
  case (Cons e es)
  then have e: "e \<noteq> []" "e \<noteq> ''.''" "e \<noteq> ''..''" by (auto simp: ordinary_def element_def)
  have step: "cleanStep r stk e = e # stk" using e by (simp add: cleanStep_def)
  have "ordinary (e # stk)" "ordinary es" using Cons.prems by (auto simp: ordinary_def)
  then show ?case using Cons.IH[of "e # stk"] step by simp
qed

lemma foldl_cleanStep_empty: "foldl (cleanStep r) stk ([] # es) = foldl (cleanStep r) stk es"
  by (simp add: cleanStep_def)

lemma Clean_pathOf: "ordinary es \<Longrightarrow> Clean (pathOf es) = pathOf es"
proof (cases "es = []")
  case True
  then show ?thesis by (simp add: pathOf_def Clean_def cleanStep_def)
next
  case False
  assume o: "ordinary es"
  then have "splitSep (CHR ''/'') (joinSep ''/'' es) = es"
    using False by (intro splitSep_joinSep) (auto simp: ordinary_def element_def)
  then have "foldl (cleanStep True) [] (splitSep (CHR ''/'') (pathOf es)) = rev es"
    using foldl_cleanStep_ordinary[OF o, of "[]" True]
    by (simp add: pathOf_def cleanStep_def ordinary_def)
  then show ?thesis by (simp add: Clean_def pathOf_def)
qed

lemma Clean_trailing_sep: "p \<noteq> [] \<Longrightarrow> Clean (p @ ''/'') = Clean p"
proof -
  assume p: "p \<noteq> []"
  have s: "splitSep (CHR ''/'') (p @ ''/'') = splitSep (CHR ''/'') p @ [[]]"
    using splitSep_last_sep[of "CHR ''/''" "[]" p] by simp
  have h: "hd (p @ ''/'') = hd p" using p by simp
  have f: "foldl (cleanStep r) [] (splitSep (CHR ''/'') p @ [[]])
         = foldl (cleanStep r) [] (splitSep (CHR ''/'') p)" for r
    by (simp add: cleanStep_def)
  show ?thesis using p unfolding Clean_def s h f by simp
qed

lemma pathOf_snoc:
  "pathOf (es @ [n]) = (if es = [] then CHR ''/'' # n else pathOf es @ ''/'' @ n)"
  by (induction es) (auto simp: pathOf_def joinSep_Cons)

lemma dropWhile_neq_append:
  "c \<notin> set xs \<Longrightarrow> dropWhile (\<lambda>x. x \<noteq> c) (xs @ c # ys) = c # ys"
  by (induction xs) auto

lemma Dir_pathOf:
  assumes "ordinary es" and "CHR ''/'' \<notin> set n"
  shows "Dir (pathOf (es @ [n])) = pathOf es"
proof (cases "es = []")
  case True
  have "rev (dropWhile (\<lambda>c. c \<noteq> CHR ''/'') (rev (CHR ''/'' # n))) = ''/''"
    using assms(2) dropWhile_neq_append[of "CHR ''/''" "rev n" "[]"] by simp
  then show ?thesis using True
    by (simp add: Dir_def pathOf_snoc pathOf_def Clean_def cleanStep_def)
next
  case False
  have "rev (dropWhile (\<lambda>c. c \<noteq> CHR ''/'') (rev (pathOf es @ ''/'' @ n))) = pathOf es @ ''/''"
    using assms(2) dropWhile_neq_append[of "CHR ''/''" "rev n" "rev (pathOf es)"] by simp
  then have "Dir (pathOf (es @ [n])) = Clean (pathOf es @ ''/'')"
    using False by (simp add: Dir_def pathOf_snoc)
  also have "\<dots> = Clean (pathOf es)"
    by (rule Clean_trailing_sep) (simp add: pathOf_def)
  also have "\<dots> = pathOf es" by (rule Clean_pathOf[OF assms(1)])
  finally show ?thesis .
qed

lemma pathOf_inject:
  assumes "ordinary xs" and "ordinary ys" and "pathOf xs = pathOf ys"
  shows "xs = ys"
proof -
  have j: "joinSep ''/'' xs = joinSep ''/'' ys" using assms(3) by (simp add: pathOf_def)
  have sx: "\<forall>e \<in> set xs. CHR ''/'' \<notin> set e" and sy: "\<forall>e \<in> set ys. CHR ''/'' \<notin> set e"
    using assms(1,2) by (auto simp: ordinary_def element_def)
  have ex: "\<forall>x \<in> set xs. element x" and ey: "\<forall>x \<in> set ys. element x"
    using assms(1,2) by (auto simp: ordinary_def)
  show ?thesis
  proof (cases "xs = []")
    case True
    then have "joinSep ''/'' ys = []" using j by simp
    then show ?thesis using True joinSep_elements_last[OF ey] by blast
  next
    case False
    then have "joinSep ''/'' xs \<noteq> []" using joinSep_elements_last[OF ex] by blast
    then have y: "ys \<noteq> []" using j by auto
    have "xs = splitSep (CHR ''/'') (joinSep ''/'' xs)"
      by (rule splitSep_joinSep[OF sx False, symmetric])
    also have "\<dots> = splitSep (CHR ''/'') (joinSep ''/'' ys)" by (simp only: j)
    also have "\<dots> = ys" by (rule splitSep_joinSep[OF sy y])
    finally show ?thesis .
  qed
qed

lemma parent_is_root_iff:
  assumes "ordinary rs" and "ordinary ds" and "ordinary [n]"
  shows "Dir (pathOf (rs @ ds @ [n])) = pathOf rs \<longleftrightarrow> ds = []"
    and "pathOf (rs @ ds) = pathOf rs \<longleftrightarrow> ds = []"
proof -
  have o: "ordinary (rs @ ds)" using assms by (auto simp: ordinary_def)
  have n: "CHR ''/'' \<notin> set n" using assms(3) by (simp add: ordinary_def element_def)
  have "Dir (pathOf ((rs @ ds) @ [n])) = pathOf (rs @ ds)" by (rule Dir_pathOf[OF o n])
  then show "Dir (pathOf (rs @ ds @ [n])) = pathOf rs \<longleftrightarrow> ds = []"
    using pathOf_inject[OF o assms(1)] by auto
  show "pathOf (rs @ ds) = pathOf rs \<longleftrightarrow> ds = []"
    using pathOf_inject[OF o assms(1)] by auto
qed

section \<open>Evaluating the sample installation\<close>

lemmas unfold_paths =
  TrimPrefix_def HasPrefix_def UnescapeString_def ReplaceAll_def Abs_def IsAbs_def
  Clean_def cleanStep_def Dir_def Ext_def SplitDir_def Let_def

lemmas unfold_writer =
  doWrite_def doHeaderSet_def doWriteHeader_def StatusOK_def StatusBadRequest_def
  StatusUnauthorized_def StatusNotFound_def StatusInternalServerError_def

lemmas unfold_handlers =
  serve_def parseSafePath_def serveFile_def serveFailure_def guessMimeType_def serveDir_def
  dirFuncs_def Execute_def templateFp_def serveIcon_def serve_u_def serveFile_u_def
  serveReject_def getMimeType_def serveDir_u_def

lemmas unfold_sample =
  sample_def deep_def flat_def flat_u_def fresh_def sampleStat_def sampleReadFile_def
  sampleReadDir_def sampleTypes_def sampleParse_def fileOf_def dirOf_def

section \<open>What the handlers do, case by case\<close>

lemma serveFailure_calls:
  "calls (serveFailure w code message) =
     calls w @ [WriteHeader code, HeaderSet ''Content-Type'' ''text/plain; charset=utf-8'', Write message]"
  by (simp add: serveFailure_def unfold_writer Let_def)

lemma serveReject_calls:
  "calls (serveReject w code message) =
     calls w @ [WriteHeader code, HeaderSet ''Content-Type'' ''text/plain; charset=utf-8'', Write message]"
  by (simp add: serveReject_def unfold_writer Let_def)

lemma serveFile_readable:
  assumes "ReadFile sys (abs_p p) = Some data" and "\<not> broken w"
  shows "serveFile sys w p =
           w\<lparr>calls := calls w @ [Write data, HeaderSet ''Content-Type'' (guessMimeType sys (rel p))]\<rparr>"
  using assms by (simp add: serveFile_def unfold_writer)

lemma serveFile_unreadable:
  assumes "ReadFile sys (abs_p p) = None"
  shows "serveFile sys w p = serveFailure w StatusInternalServerError ''server error''"
  using assms by (simp add: serveFile_def)

lemma serveFile_u_readable:
  assumes "ReadFile sys fp = Some data" and "\<not> broken w"
  shows "serveFile_u sys w fp =
           w\<lparr>calls := calls w @ [Write data, HeaderSet ''Content-Type'' (getMimeType sys fp)]\<rparr>"
  using assms by (simp add: serveFile_u_def unfold_writer Let_def)

lemma serveFile_u_unreadable:
  assumes "ReadFile sys fp = None"
  shows "serveFile_u sys w fp = serveReject w StatusInternalServerError ''error''"
  using assms by (simp add: serveFile_u_def Let_def)

lemma setBeforeBody_serveFile:
  "setBeforeBody ''Content-Type'' (calls (serveFile sys fresh p)) = (ReadFile sys (abs_p p) = None)"
  by (cases "ReadFile sys (abs_p p)")
     (simp_all add: serveFile_def serveFailure_def unfold_writer fresh_def Let_def)

lemma setBeforeBody_serveFile_u:
  "setBeforeBody ''Content-Type'' (calls (serveFile_u sys fresh fp)) = (ReadFile sys fp = None)"
  by (cases "ReadFile sys fp")
     (simp_all add: serveFile_u_def serveReject_def unfold_writer fresh_def Let_def)

lemma parseArgs_u_flag:
  "parseArgs_u args (r, addr, dir) = Some (r', addr', dir') \<Longrightarrow> r' = (r \<or> ''-r'' \<in> set args)"
  by (induction args arbitrary: r addr dir) (auto split: if_splits)

lemma serve_allowed_dir:
  assumes "RequestURI \<noteq> ''/~favicon.ico''"
    and "parseSafePath sys g RequestURI = Some sp"
    and "Stat sys (abs_p sp) = Some fi" and "IsDir fi"
    and "recursive g \<or> abs_p sp = root g"
  shows "serve sys g w RequestURI = serveDir sys g w sp"
  using assms by (auto simp: serve_def)

lemma serve_allowed_file:
  assumes "RequestURI \<noteq> ''/~favicon.ico''"
    and "parseSafePath sys g RequestURI = Some sp"
    and "Stat sys (abs_p sp) = Some fi" and "\<not> IsDir fi"
    and "recursive g \<or> Dir (abs_p sp) = root g"
  shows "serve sys g w RequestURI = Returned (serveFile sys w sp)"
  using assms by (auto simp: serve_def)

lemma serve_denied_dir:
  assumes "RequestURI \<noteq> ''/~favicon.ico''"
    and "parseSafePath sys g RequestURI = Some sp"
    and "Stat sys (abs_p sp) = Some fi" and "IsDir fi"
    and "\<not> recursive g" and "abs_p sp \<noteq> root g"
  shows "serve sys g w RequestURI = Returned (serveFailure w StatusUnauthorized ''unauthorized'')"
  using assms by (auto simp: serve_def)

lemma serve_denied_file:
  assumes "RequestURI \<noteq> ''/~favicon.ico''"
    and "parseSafePath sys g RequestURI = Some sp"
    and "Stat sys (abs_p sp) = Some fi" and "\<not> IsDir fi"
    and "\<not> recursive g" and "Dir (abs_p sp) \<noteq> root g"
  shows "serve sys g w RequestURI = Returned (serveFailure w StatusUnauthorized ''unauthorized'')"
  using assms by (auto simp: serve_def)

lemma serve_not_found:
  assumes "RequestURI \<noteq> ''/~favicon.ico''"
    and "parseSafePath sys g RequestURI = Some sp"
    and "Stat sys (abs_p sp) = None"
  shows "serve sys g w RequestURI = Returned (serveFailure w StatusNotFound ''invalid path'')"
  using assms by (auto simp: serve_def)

lemma serve_inadmissible:
  assumes "RequestURI \<noteq> ''/~favicon.ico''"
    and "parseSafePath sys g RequestURI = None"
  shows "serve sys g w RequestURI = Returned (serveFailure w StatusBadRequest ''invalid path'')"
  using assms by (auto simp: serve_def)

lemma parseSafePath_None:
  "parseSafePath sys g raw = None \<longleftrightarrow>
     (resolved sys g raw = None \<or> (\<exists>a. resolved sys g raw = Some a \<and> \<not> HasPrefix a (root g)))"
  by (auto simp: parseSafePath_resolved split: option.splits)

lemma serveDir_read_fails:
  "ReadDir sys (abs_p p) = None \<Longrightarrow> serveDir sys g w p = Fatal ''read dir'' w"
  by (simp add: serveDir_def)

lemma serveDir_parse_fails:
  "ReadDir sys (abs_p p) = Some es \<Longrightarrow>
   ParseFiles sys (dirFuncs sys p) (Join [home g, templateFp]) = None \<Longrightarrow>
   serveDir sys g w p = Fatal ''parse template'' w"
  by (simp add: serveDir_def del: Join.simps)

lemma serveDir_execute_fails:
  "ReadDir sys (abs_p p) = Some es \<Longrightarrow>
   ParseFiles sys (dirFuncs sys p) (Join [home g, templateFp]) = Some tmp \<Longrightarrow>
   \<not> snd (Execute tmp w \<lparr>DirName = ''/'' @ rel p, Content = es\<rparr>) \<Longrightarrow>
   serveDir sys g w p =
     Fatal ''execute template'' (fst (Execute tmp w \<lparr>DirName = ''/'' @ rel p, Content = es\<rparr>))"
  by (cases "Execute tmp w \<lparr>DirName = ''/'' @ rel p, Content = es\<rparr>")
     (simp add: serveDir_def del: Join.simps)

lemma Execute_calls:
  "\<exists>cs. calls (fst (Execute tmp w data)) = calls w @ map Write cs"
proof (cases "tmp data")
  case (Pair chunks ok)
  show ?thesis
  proof (cases "broken w \<and> chunks \<noteq> []")
    case True
    then have "calls (fst (Execute tmp w data)) = calls w @ map Write [hd chunks]"
      using Pair by (simp add: Execute_def)
    then show ?thesis by blast
  next
    case False
    then have "calls (fst (Execute tmp w data)) = calls w @ map Write chunks"
      using Pair by (auto simp: Execute_def)
    then show ?thesis by blast
  qed
qed

lemma serveDir_u_read_fails:
  "ReadDir sys dir = None \<Longrightarrow> serveDir_u sys w dir subdir = Fatal ''read fsDir'' w"
  by (simp add: serveDir_u_def)

lemma serve_u_dir:
  assumes "Abs (Getwd sys) (Join [rootDir g, RequestURI]) = Some target"
    and "HasPrefix target (rootDir g)" and "Stat sys target = Some fi" and "IsDir fi"
  shows "serve_u sys g w RequestURI = serveDir_u sys w target RequestURI"
  using assms by (simp add: serve_u_def del: Join.simps)

lemma serve_u_file:
  assumes "Abs (Getwd sys) (Join [rootDir g, RequestURI]) = Some target"
    and "HasPrefix target (rootDir g)" and "Stat sys target = Some fi" and "\<not> IsDir fi"
  shows "serve_u sys g w RequestURI = Returned (serveFile_u sys w target)"
  using assms by (simp add: serve_u_def del: Join.simps)

lemma statusOf_writes: "statusOf (map Write cs @ [HeaderSet k v]) = 200"
  by (cases cs) auto

lemma serveDir_returns:
  assumes "ReadDir sys (abs_p p) = Some es"
    and "ParseFiles sys (dirFuncs sys p) (Join [home g, templateFp]) = Some tmp"
    and "snd (Execute tmp w \<lparr>DirName = ''/'' @ rel p, Content = es\<rparr>)"
    and "calls w = []"
  shows "statusSent (serveDir sys g w p) = Some 200"
proof -
  let ?d = "\<lparr>DirName = ''/'' @ rel p, Content = es\<rparr>"
  obtain w1 ok where ex: "Execute tmp w ?d = (w1, ok)" by (cases "Execute tmp w ?d")
  then have ok: "ok" using assms(3) by simp
  obtain cs where cs: "calls w1 = map Write cs"
    using Execute_calls[of tmp w ?d] ex assms(4) by auto
  have "serveDir sys g w p = Returned (doHeaderSet ''Content-Type'' ''text/html; charset=utf-8'' w1)"
    using assms(1,2) ex ok by (simp add: serveDir_def del: Join.simps)
  then show ?thesis using cs by (simp add: statusSent_def doHeaderSet_def statusOf_writes)
qed

lemma serveDir_status:
  assumes "calls w = []"
  shows "statusSent (serveDir sys g w p) = Some 200 \<or> statusSent (serveDir sys g w p) = None"
proof (cases "serveDir sys g w p")
  case (Fatal m w')
  then show ?thesis by (simp add: statusSent_def)
next
  case (Returned w')
  then obtain es tmp where "ReadDir sys (abs_p p) = Some es"
    "ParseFiles sys (dirFuncs sys p) (Join [home g, templateFp]) = Some tmp"
    "snd (Execute tmp w \<lparr>DirName = ''/'' @ rel p, Content = es\<rparr>)"
    by (auto simp: serveDir_def Let_def split: option.splits prod.splits if_splits simp del: Join.simps)
  from serveDir_returns[OF this assms] show ?thesis by simp
qed

lemma statusSent_failure:
  "calls w = [] \<Longrightarrow> statusSent (Returned (serveFailure w code message)) = Some code"
  by (simp add: statusSent_def serveFailure_calls)

lemma statusSent_reject:
  "calls w = [] \<Longrightarrow> statusSent (Returned (serveReject w code message)) = Some code"
  by (simp add: statusSent_def serveReject_calls)

lemma serveFile_sent:
  assumes "ReadFile sys (abs_p p) = Some data" and "calls w = []" and "\<not> broken w"
  shows "statusSent (Returned (serveFile sys w p)) = Some 200"
    and "bodySent (Returned (serveFile sys w p)) = Some data"
  using assms by (simp_all add: serveFile_readable statusSent_def bodySent_def)

lemma Abs_absolute_root:
  assumes "IsAbs rt"
  shows "Abs (Getwd sys) (Join [rt, raw]) = Some (Clean (Clean (rt @ ''/'' @ raw)))"
proof -
  from assms obtain t where r: "rt = CHR ''/'' # t"
    by (cases rt) (auto simp: IsAbs_def HasPrefix_def)
  have j: "Join [rt, raw] = Clean (rt @ ''/'' @ raw)" using r by simp
  have "IsAbs (Clean (rt @ ''/'' @ raw))"
    using r by (simp add: Clean_def IsAbs_def HasPrefix_def Let_def)
  then show ?thesis unfolding j by (simp add: Abs_def)
qed

lemma resolved_absolute_root:
  "IsAbs (root g) \<Longrightarrow>
   resolved sys g raw = Some (Clean (Clean (root g @ ''/'' @ decoded sys raw)))"
  unfolding resolved_def by (rule Abs_absolute_root)

lemmas unfold_sniff =
  DetectContentType_def sniffSignatures_def isWS_def isTT_def byte_def bigEndian32_def
  mp4Brand_def Let_def

lemma sniff_messages:
  "DetectContentType ''invalid path'' = ''text/plain; charset=utf-8''"
  "DetectContentType ''unauthorized'' = ''text/plain; charset=utf-8''"
  "DetectContentType ''server error'' = ''text/plain; charset=utf-8''"
  "DetectContentType ''bad target path'' = ''text/plain; charset=utf-8''"
  "DetectContentType ''unauthorized path'' = ''text/plain; charset=utf-8''"
  "DetectContentType ''target not found'' = ''text/plain; charset=utf-8''"
  "DetectContentType ''error'' = ''text/plain; charset=utf-8''"
  by (simp_all add: unfold_sniff)

lemma sniff_examples:
  "DetectContentType ''<html><body>'' = ''text/html; charset=utf-8''"
  "DetectContentType ''  <!doctype html>'' = ''text/html; charset=utf-8''"
  "DetectContentType ''GIF89a...'' = ''image/gif''"
  "DetectContentType [CHR 0x01, CHR 0x02] = ''application/octet-stream''"
  "DetectContentType ''ttcfoo'' = ''font/collection''"
  "DetectContentType (''PK'' @ [CHR 0x03, CHR 0x04, CHR 0x14]) = ''application/zip''"
  "DetectContentType [] = ''text/plain; charset=utf-8''"
  by (simp_all add: unfold_sniff)

lemma contentTypeOf_failure:
  assumes "calls w = []" and "bodyAllowedForStatus code" and "message \<noteq> []"
  shows "contentTypeOf (calls (serveFailure w code message)) = Some (DetectContentType message)"
  using assms by (simp add: serveFailure_calls contentTypeOf_def)

lemma contentTypeOf_reject:
  assumes "calls w = []" and "bodyAllowedForStatus code" and "message \<noteq> []"
  shows "contentTypeOf (calls (serveReject w code message)) = Some (DetectContentType message)"
  using assms by (simp add: serveReject_calls contentTypeOf_def)

lemma header_set_late:
  assumes "calls w = []"
  shows "headerAtCommit Map.empty (calls (serveFailure w code message)) = Map.empty"
    and "headerAtCommit Map.empty (calls (serveReject w code message)) = Map.empty"
  using assms by (simp_all add: serveFailure_calls serveReject_calls)

lemma Abs_IsAbs:
  assumes "Abs getwd path = Some a" and "\<forall>wd. getwd = Some wd \<longrightarrow> IsAbs wd"
  shows "IsAbs a"
proof (cases "IsAbs path")
  case True
  then obtain t where "path = CHR ''/'' # t"
    by (cases path) (auto simp: IsAbs_def HasPrefix_def)
  then show ?thesis using assms(1) True
    by (auto simp: Abs_def Clean_def IsAbs_def HasPrefix_def Let_def)
next
  case False
  then obtain wd where wd: "getwd = Some wd" and a: "a = Join [wd, path]"
    using assms(1) by (auto simp: Abs_def split: option.splits)
  from assms(2) wd obtain t where t: "wd = CHR ''/'' # t"
    by (cases wd) (auto simp: IsAbs_def HasPrefix_def)
  show ?thesis unfolding a t by (simp add: Clean_def IsAbs_def HasPrefix_def Let_def)
qed

lemma main_root_absolute:
  assumes "main sys args = Started g addr" and "\<forall>wd. Getwd sys = Some wd \<longrightarrow> IsAbs wd"
  shows "IsAbs (root g)"
proof -
  from assms(1) obtain dir where "Abs (Getwd sys) dir = Some (root g)"
    by (auto simp: main_def split: if_splits option.splits prod.splits)
  then show ?thesis using assms(2) by (rule Abs_IsAbs)
qed

lemma main_u_root_absolute:
  assumes "main_u sys args = Started g addr" and "\<forall>wd. Getwd sys = Some wd \<longrightarrow> IsAbs wd"
  shows "IsAbs (rootDir g)"
proof -
  from assms(1) obtain dir where "Abs (Getwd sys) dir = Some (rootDir g)"
    by (auto simp: main_u_def Let_def split: if_splits option.splits prod.splits)
  then show ?thesis using assms(2) by (rule Abs_IsAbs)
qed

section \<open>The containment check\<close>

text \<open>
  Claim C1 asks that a path which merely shares a string prefix with the root, such as
  \<open>/data-secret\<close> or \<open>/data2/x\<close> beside the root \<open>/data\<close>, be rejected. Both variants
  compare with \<^verbatim>\<open>strings.HasPrefix\<close> alone: in the sample installation
  \<^verbatim>\<open>parseSafePath\<close> returns a safe path for both siblings although neither is
  contained in the root, and the earlier variant serves the sibling file.
\<close>

theorem sibling_prefix_accepted:
  "parseSafePath sample deep ''/?/../../data-secret'' =
      Some \<lparr>abs_p = ''/data-secret'', rel = ''-secret''\<rparr>
   \<and> parseSafePath sample deep ''/?/../../data2/x'' =
      Some \<lparr>abs_p = ''/data2/x'', rel = ''2/x''\<rparr>
   \<and> \<not> contained (root deep) ''/data-secret''
   \<and> \<not> contained (root deep) ''/data2/x''
   \<and> serve_u sample flat_u fresh ''/?/../../data-secret'' =
       Returned \<lparr>calls = [Write ''secret'', HeaderSet ''Content-Type'' ''application/octet-stream''],
                 broken = False\<rparr>"
  by (simp add: unfold_handlers unfold_paths unfold_writer unfold_sample contained_def)

text \<open>
  Claim C2 asks that no resolved path outside the root reaches the content server.
  In recursive mode \<^verbatim>\<open>serve\<close> of \<^verbatim>\<open>sharedir.go\<close> answers the traversal request below
  with status 200 and the bytes of the sibling file \<open>/data-secret\<close>.
\<close>

theorem sibling_file_served:
  "serve sample deep fresh ''/?/../../data-secret'' =
     Returned \<lparr>calls = [Write ''secret'', HeaderSet ''Content-Type'' ''application/octet-stream''],
               broken = False\<rparr>
   \<and> statusOf [Write ''secret'', HeaderSet ''Content-Type'' ''application/octet-stream''] = 200
   \<and> bodyOf [Write ''secret'', HeaderSet ''Content-Type'' ''application/octet-stream''] = ''secret''
   \<and> resolved sample deep ''/?/../../data-secret'' = Some ''/data-secret''
   \<and> \<not> contained (root deep) ''/data-secret''"
  by (simp add: unfold_handlers unfold_paths unfold_writer unfold_sample contained_def
      resolved_def decoded_def)

section \<open>The access policy\<close>

text \<open>
  The decision table of \<^verbatim>\<open>sharedir.go\<close>. For a request that resolves to an existing
  path: a file is handed to \<^verbatim>\<open>serveFile\<close> when the mode is recursive or its parent
  directory is the root, and then answered with 200 and the file's bytes when the
  file can be read and with 500 when it cannot; any other file is answered with 401. A
  directory is handed to \<^verbatim>\<open>serveDir\<close> when the mode is recursive or it is the root,
  and then answered with 200 unless the process ends (claim C6); any other directory
  is answered with 401. In terms of path elements: below a root with elements \<open>rs\<close>,
  the parent of the file \<open>rs @ ds @ [n]\<close> is the root exactly when \<open>ds\<close> is empty, and
  the directory \<open>rs @ ds\<close> is the root exactly when \<open>ds\<close> is empty.
\<close>

theorem access_policy:
  "(RequestURI \<noteq> ''/~favicon.ico'' \<and> parseSafePath sys g RequestURI = Some sp
      \<and> Stat sys (abs_p sp) = Some fi \<longrightarrow>
      (\<not> IsDir fi \<and> (recursive g \<or> Dir (abs_p sp) = root g) \<longrightarrow>
          serve sys g w RequestURI = Returned (serveFile sys w sp)
        \<and> (ReadFile sys (abs_p sp) = Some data \<and> calls w = [] \<and> \<not> broken w \<longrightarrow>
             statusSent (serve sys g w RequestURI) = Some 200
           \<and> bodySent (serve sys g w RequestURI) = Some data)
        \<and> (ReadFile sys (abs_p sp) = None \<and> calls w = [] \<longrightarrow>
             statusSent (serve sys g w RequestURI) = Some 500))
    \<and> (\<not> IsDir fi \<and> \<not> recursive g \<and> Dir (abs_p sp) \<noteq> root g \<and> calls w = [] \<longrightarrow>
          statusSent (serve sys g w RequestURI) = Some 401)
    \<and> (IsDir fi \<and> (recursive g \<or> abs_p sp = root g) \<longrightarrow>
          serve sys g w RequestURI = serveDir sys g w sp
        \<and> (calls w = [] \<longrightarrow>
             statusSent (serve sys g w RequestURI) = Some 200
           \<or> statusSent (serve sys g w RequestURI) = None)
        \<and> (ReadDir sys (abs_p sp) = Some es
             \<and> ParseFiles sys (dirFuncs sys sp) (Join [home g, templateFp]) = Some tmp
             \<and> snd (Execute tmp w \<lparr>DirName = ''/'' @ rel sp, Content = es\<rparr>)
             \<and> calls w = [] \<longrightarrow>
             statusSent (serve sys g w RequestURI) = Some 200))
    \<and> (IsDir fi \<and> \<not> recursive g \<and> abs_p sp \<noteq> root g \<and> calls w = [] \<longrightarrow>
          statusSent (serve sys g w RequestURI) = Some 401))
 \<and> (ordinary rs \<and> ordinary ds \<and> ordinary [n] \<and> root g = pathOf rs \<longrightarrow>
      (Dir (pathOf (rs @ ds @ [n])) = root g \<longleftrightarrow> ds = [])
    \<and> (pathOf (rs @ ds) = root g \<longleftrightarrow> ds = []))"
  (is "(?H \<longrightarrow> ?X1 \<and> ?X2 \<and> ?X3 \<and> ?X4) \<and> ?P")
proof -
  have F: "serve sys g w RequestURI = Returned (serveFile sys w sp)
        \<and> (ReadFile sys (abs_p sp) = Some data \<and> calls w = [] \<and> \<not> broken w \<longrightarrow>
             statusSent (serve sys g w RequestURI) = Some 200
           \<and> bodySent (serve sys g w RequestURI) = Some data)
        \<and> (ReadFile sys (abs_p sp) = None \<and> calls w = [] \<longrightarrow>
             statusSent (serve sys g w RequestURI) = Some 500)"
    if "RequestURI \<noteq> ''/~favicon.ico''" "parseSafePath sys g RequestURI = Some sp"
      "Stat sys (abs_p sp) = Some fi" "\<not> IsDir fi" "recursive g \<or> Dir (abs_p sp) = root g"
    using serve_allowed_file[OF that, of w] serveFile_sent[of sys sp data w]
      serveFile_unreadable[of sys sp w] statusSent_failure[of w]
    by (simp add: StatusInternalServerError_def)
  have FD: "statusSent (serve sys g w RequestURI) = Some 401"
    if "RequestURI \<noteq> ''/~favicon.ico''" "parseSafePath sys g RequestURI = Some sp"
      "Stat sys (abs_p sp) = Some fi" "\<not> IsDir fi" "\<not> recursive g" "Dir (abs_p sp) \<noteq> root g"
      "calls w = []"
    using serve_denied_file[OF that(1-6), of w] statusSent_failure[OF that(7)]
    by (simp add: StatusUnauthorized_def)
  have D: "serve sys g w RequestURI = serveDir sys g w sp
        \<and> (calls w = [] \<longrightarrow>
             statusSent (serve sys g w RequestURI) = Some 200
           \<or> statusSent (serve sys g w RequestURI) = None)
        \<and> (ReadDir sys (abs_p sp) = Some es
             \<and> ParseFiles sys (dirFuncs sys sp) (Join [home g, templateFp]) = Some tmp
             \<and> snd (Execute tmp w \<lparr>DirName = ''/'' @ rel sp, Content = es\<rparr>)
             \<and> calls w = [] \<longrightarrow>
             statusSent (serve sys g w RequestURI) = Some 200)"
    if "RequestURI \<noteq> ''/~favicon.ico''" "parseSafePath sys g RequestURI = Some sp"
      "Stat sys (abs_p sp) = Some fi" "IsDir fi" "recursive g \<or> abs_p sp = root g"
    using serve_allowed_dir[OF that, of w] serveDir_status[of w sys g sp]
      serveDir_returns[of sys sp es g tmp w]
    by simp
  have DD: "statusSent (serve sys g w RequestURI) = Some 401"
    if "RequestURI \<noteq> ''/~favicon.ico''" "parseSafePath sys g RequestURI = Some sp"
      "Stat sys (abs_p sp) = Some fi" "IsDir fi" "\<not> recursive g" "abs_p sp \<noteq> root g"
      "calls w = []"
    using serve_denied_dir[OF that(1-6), of w] statusSent_failure[OF that(7)]
    by (simp add: StatusUnauthorized_def)
  have P: "(Dir (pathOf (rs @ ds @ [n])) = root g \<longleftrightarrow> ds = [])
    \<and> (pathOf (rs @ ds) = root g \<longleftrightarrow> ds = [])"
    if "ordinary rs" "ordinary ds" "ordinary [n]" "root g = pathOf rs"
    using parent_is_root_iff[OF that(1-3)] that(4) by simp
  have S: "?H \<longrightarrow> ?X1 \<and> ?X2 \<and> ?X3 \<and> ?X4"
  proof (intro impI, elim conjE)
    assume a: "RequestURI \<noteq> ''/~favicon.ico''" "parseSafePath sys g RequestURI = Some sp"
      "Stat sys (abs_p sp) = Some fi"
    have x1: ?X1 by (intro impI, elim conjE, rule F[OF a])
    have x2: ?X2 by (intro impI, elim conjE, rule FD[OF a])
    have x3: ?X3 by (intro impI, elim conjE, rule D[OF a])
    have x4: ?X4 by (intro impI, elim conjE, rule DD[OF a])
    show "?X1 \<and> ?X2 \<and> ?X3 \<and> ?X4" using x1 x2 x3 x4 by (intro conjI)
  qed
  have P': ?P by (intro impI, elim conjE, rule P)
  show ?thesis using S P' by (rule conjI)
qed

theorem access_policy_witness:
  "statusSent (serve sample flat fresh ''/a.txt'') = Some 200
   \<and> bodySent (serve sample flat fresh ''/a.txt'') = Some ''alpha''
   \<and> statusSent (serve sample flat fresh ''/locked.txt'') = Some 500
   \<and> statusSent (serve sample flat fresh ''/sub/b.txt'') = Some 401
   \<and> statusSent (serve sample deep fresh ''/sub/b.txt'') = Some 200
   \<and> statusSent (serve sample flat fresh ''/'') = Some 200
   \<and> statusSent (serve sample flat fresh ''/sub'') = Some 401
   \<and> statusSent (serve sample deep fresh ''/sub'') = Some 200
   \<and> Dir (pathOf [''data'', ''a.txt'']) = root flat
   \<and> Dir (pathOf [''data'', ''sub'', ''b.txt'']) \<noteq> root flat"
proof -
  note ev = parseSafePath_def unfold_paths unfold_sample dirFuncs_def templateFp_def Execute_def
  let ?a = "\<lparr>abs_p = ''/data/a.txt'', rel = ''a.txt''\<rparr>"
  let ?l = "\<lparr>abs_p = ''/data/locked.txt'', rel = ''locked.txt''\<rparr>"
  let ?b = "\<lparr>abs_p = ''/data/sub/b.txt'', rel = ''sub/b.txt''\<rparr>"
  let ?r = "\<lparr>abs_p = ''/data'', rel = []\<rparr>"
  let ?s = "\<lparr>abs_p = ''/data/sub'', rel = ''sub''\<rparr>"
  let ?res = "[\<lparr>Name = ''a.txt'', Info = Some (fileOf 5)\<rparr>, \<lparr>Name = ''sub'', Info = Some dirOf\<rparr>]"
  let ?ses = "[\<lparr>Name = ''b.txt'', Info = Some (fileOf 4)\<rparr>]"
  let ?rt = "\<lambda>d. (DirName d # map (\<lambda>e. href (dirFuncs sample ?r) (Name e)) (Content d), True)"
  let ?stm = "\<lambda>d. (DirName d # map (\<lambda>e. href (dirFuncs sample ?s) (Name e)) (Content d), True)"
  have p: "parseSafePath sample flat ''/a.txt'' = Some ?a"
    "parseSafePath sample flat ''/locked.txt'' = Some ?l"
    "parseSafePath sample flat ''/sub/b.txt'' = Some ?b"
    "parseSafePath sample deep ''/sub/b.txt'' = Some ?b"
    "parseSafePath sample flat ''/'' = Some ?r"
    "parseSafePath sample flat ''/sub'' = Some ?s"
    "parseSafePath sample deep ''/sub'' = Some ?s"
    by (simp_all add: ev)
  have st: "Stat sample ''/data/a.txt'' = Some (fileOf 5)"
    "Stat sample ''/data/locked.txt'' = Some (fileOf 3)"
    "Stat sample ''/data/sub/b.txt'' = Some (fileOf 4)"
    "Stat sample ''/data'' = Some dirOf" "Stat sample ''/data/sub'' = Some dirOf"
    "IsDir dirOf" "\<And>k. \<not> IsDir (fileOf k)" "recursive deep" "\<not> recursive flat"
    "root flat = ''/data''" "calls fresh = []" "\<not> broken fresh"
    by (simp_all add: ev)
  have dr: "Dir ''/data/a.txt'' = ''/data''" "Dir ''/data/locked.txt'' = ''/data''"
    "Dir ''/data/sub/b.txt'' \<noteq> ''/data''"
    by (simp_all add: ev)
  have rf: "ReadFile sample ''/data/a.txt'' = Some ''alpha''"
    "ReadFile sample ''/data/locked.txt'' = None"
    "ReadFile sample ''/data/sub/b.txt'' = Some ''beta''"
    by (simp_all add: ev)
  have rd: "ReadDir sample ''/data'' = Some ?res" "ReadDir sample ''/data/sub'' = Some ?ses"
    by (simp_all add: ev)
  have pf: "ParseFiles sample (dirFuncs sample ?r) (Join [home flat, templateFp]) = Some ?rt"
    "ParseFiles sample (dirFuncs sample ?s) (Join [home deep, templateFp]) = Some ?stm"
    by (simp_all add: ev)
  have xs: "snd (Execute ?rt fresh \<lparr>DirName = ''/'', Content = ?res\<rparr>)"
    "snd (Execute ?stm fresh \<lparr>DirName = ''/sub'', Content = ?ses\<rparr>)"
    by (simp_all add: ev)
  have ord: "ordinary [''data'']" "ordinary []" "ordinary [''sub'']" "ordinary [''a.txt'']"
    "ordinary [''b.txt'']"
    by (simp_all add: ordinary_def element_def)
  note Ta = access_policy[where sys = sample and g = flat and w = fresh
      and RequestURI = "''/a.txt''" and sp = ?a and fi = "fileOf 5" and data = "''alpha''"
      and rs = "[''data'']" and ds = "[]" and n = "''a.txt''"]
  note Tl = access_policy[where sys = sample and g = flat and w = fresh
      and RequestURI = "''/locked.txt''" and sp = ?l and fi = "fileOf 3"]
  note Tb = access_policy[where sys = sample and g = flat and w = fresh
      and RequestURI = "''/sub/b.txt''" and sp = ?b and fi = "fileOf 4"
      and rs = "[''data'']" and ds = "[''sub'']" and n = "''b.txt''"]
  note Tbd = access_policy[where sys = sample and g = deep and w = fresh
      and RequestURI = "''/sub/b.txt''" and sp = ?b and fi = "fileOf 4" and data = "''beta''"]
  note Tr = access_policy[where sys = sample and g = flat and w = fresh
      and RequestURI = "''/''" and sp = ?r and fi = dirOf and es = ?res and tmp = ?rt]
  note Ts = access_policy[where sys = sample and g = flat and w = fresh
      and RequestURI = "''/sub''" and sp = ?s and fi = dirOf]
  note Tsd = access_policy[where sys = sample and g = deep and w = fresh
      and RequestURI = "''/sub''" and sp = ?s and fi = dirOf and es = ?ses and tmp = ?stm]
  have a: "statusSent (serve sample flat fresh ''/a.txt'') = Some 200
         \<and> bodySent (serve sample flat fresh ''/a.txt'') = Some ''alpha''"
    by (rule Ta[THEN conjunct1, rule_format, THEN conjunct1, rule_format,
                THEN conjunct2, THEN conjunct1, rule_format])
       (simp_all add: p st dr rf)
  have l: "statusSent (serve sample flat fresh ''/locked.txt'') = Some 500"
    by (rule Tl[THEN conjunct1, rule_format, THEN conjunct1, rule_format,
                THEN conjunct2, THEN conjunct2, rule_format])
       (simp_all add: p st dr rf)
  have b: "statusSent (serve sample flat fresh ''/sub/b.txt'') = Some 401"
    by (rule Tb[THEN conjunct1, rule_format, THEN conjunct2, THEN conjunct1, rule_format])
       (simp_all add: p st dr)
  have bd: "statusSent (serve sample deep fresh ''/sub/b.txt'') = Some 200"
    by (rule Tbd[THEN conjunct1, rule_format, THEN conjunct1, rule_format,
                 THEN conjunct2, THEN conjunct1, rule_format, THEN conjunct1])
       (simp_all add: p st rf)
  have r: "statusSent (serve sample flat fresh ''/'') = Some 200"
    by (rule Tr[THEN conjunct1, rule_format, THEN conjunct2, THEN conjunct2, THEN conjunct1,
                rule_format, THEN conjunct2, THEN conjunct2, rule_format])
       (simp_all add: p st rd pf xs del: Join.simps)
  have s: "statusSent (serve sample flat fresh ''/sub'') = Some 401"
    by (rule Ts[THEN conjunct1, rule_format, THEN conjunct2, THEN conjunct2, THEN conjunct2,
                rule_format])
       (simp_all add: p st)
  have sd: "statusSent (serve sample deep fresh ''/sub'') = Some 200"
    by (rule Tsd[THEN conjunct1, rule_format, THEN conjunct2, THEN conjunct2, THEN conjunct1,
                 rule_format, THEN conjunct2, THEN conjunct2, rule_format])
       (simp_all add: p st rd pf xs del: Join.simps)
  have rt: "root flat = pathOf [''data'']" by (simp add: flat_def pathOf_def)
  have d1: "Dir (pathOf [''data'', ''a.txt'']) = root flat"
    using Ta[THEN conjunct2, rule_format, THEN conjunct1] ord rt by simp
  have d2: "Dir (pathOf [''data'', ''sub'', ''b.txt'']) \<noteq> root flat"
    using Tb[THEN conjunct2, rule_format, THEN conjunct1] ord rt by simp
  show ?thesis using a l b bd r s sd d1 d2 by simp
qed

text \<open>
  Claim C3. The earlier variant does not follow the decision table. Started without
  \<open>-r\<close> on the shared directory \<open>/data\<close>, its \<^verbatim>\<open>main\<close> leaves the recursion flag
  false, and its \<^verbatim>\<open>serve\<close> still answers the request for the existing file
  \<open>sub/b.txt\<close>, two levels below the root, with 200 and the file's bytes, and the
  request for the directory \<open>sub\<close> with 200, where the table has 401 for both.
  \<^verbatim>\<open>sharedir.go\<close> answers the same two requests with 401.
\<close>

theorem deep_file_served_without_recursion:
  "main_u sample ['':2022'', ''/data''] =
     Started \<lparr>rootDir = ''/data'', recursive_u = False\<rparr> '':2022''
   \<and> flat_u = \<lparr>rootDir = ''/data'', recursive_u = False\<rparr>
   \<and> Stat sample ''/data/sub/b.txt'' = Some (fileOf 4)
   \<and> Dir ''/data/sub/b.txt'' \<noteq> rootDir flat_u
   \<and> statusSent (serve_u sample flat_u fresh ''/sub/b.txt'') = Some 200
   \<and> bodySent (serve_u sample flat_u fresh ''/sub/b.txt'') = Some ''beta''
   \<and> Stat sample ''/data/sub'' = Some dirOf
   \<and> ''/data/sub'' \<noteq> rootDir flat_u
   \<and> statusSent (serve_u sample flat_u fresh ''/sub'') = Some 200
   \<and> statusSent (serve sample flat fresh ''/sub/b.txt'') = Some 401
   \<and> statusSent (serve sample flat fresh ''/sub'') = Some 401"
proof -
  have m: "main_u sample ['':2022'', ''/data''] =
     Started \<lparr>rootDir = ''/data'', recursive_u = False\<rparr> '':2022''"
    by (simp add: main_u_def unfold_paths unfold_sample)
  have f: "flat_u = \<lparr>rootDir = ''/data'', recursive_u = False\<rparr>"
    by (simp add: flat_u_def)
  have s1: "Stat sample ''/data/sub/b.txt'' = Some (fileOf 4)"
    by (simp add: unfold_sample)
  have d1: "Dir ''/data/sub/b.txt'' \<noteq> rootDir flat_u"
    by (simp add: unfold_paths unfold_sample)
  have u1: "statusSent (serve_u sample flat_u fresh ''/sub/b.txt'') = Some 200"
    by (simp add: unfold_handlers unfold_paths unfold_writer unfold_sample statusSent_def)
  have u2: "bodySent (serve_u sample flat_u fresh ''/sub/b.txt'') = Some ''beta''"
    by (simp add: unfold_handlers unfold_paths unfold_writer unfold_sample bodySent_def)
  have s2: "Stat sample ''/data/sub'' = Some dirOf"
    by (simp add: unfold_sample)
  have d2: "''/data/sub'' \<noteq> rootDir flat_u"
    by (simp add: unfold_sample)
  have u3: "statusSent (serve_u sample flat_u fresh ''/sub'') = Some 200"
    by (simp add: unfold_handlers unfold_paths unfold_writer unfold_sample statusSent_def
        addEntry_def UnixDate_def)
  have g1: "statusSent (serve sample flat fresh ''/sub/b.txt'') = Some 401"
    by (simp add: unfold_handlers unfold_paths unfold_writer unfold_sample statusSent_def)
  have g2: "statusSent (serve sample flat fresh ''/sub'') = Some 401"
    by (simp add: unfold_handlers unfold_paths unfold_writer unfold_sample statusSent_def)
  show ?thesis
    by (rule conjI[OF m conjI[OF f conjI[OF s1 conjI[OF d1 conjI[OF u1 conjI[OF u2
          conjI[OF s2 conjI[OF d2 conjI[OF u3 conjI[OF g1 g2]]]]]]]]]])
qed

section \<open>The order of body and content type\<close>

text \<open>
  Claim C4 asks that the content type be set before any body byte is written. In both
  variants \<^verbatim>\<open>serveFile\<close> writes the file's bytes first and sets the header afterwards:
  on a fresh response the content type is set before the body only when the file
  cannot be read and the error response is sent instead.
\<close>

theorem body_precedes_content_type:
  "setBeforeBody ''Content-Type'' (calls (serveFile sys fresh p)) = (ReadFile sys (abs_p p) = None)
   \<and> setBeforeBody ''Content-Type'' (calls (serveFile_u sys fresh fp)) = (ReadFile sys fp = None)
   \<and> serve sample flat fresh ''/a.txt'' =
       Returned \<lparr>calls = [Write ''alpha'', HeaderSet ''Content-Type'' ''text/plain; charset=utf-8''],
                 broken = False\<rparr>
   \<and> serve_u sample flat_u fresh ''/a.txt'' =
       Returned \<lparr>calls = [Write ''alpha'', HeaderSet ''Content-Type'' ''text/plain; charset=utf-8''],
                 broken = False\<rparr>"
proof -
  have a: "serve sample flat fresh ''/a.txt'' =
       Returned \<lparr>calls = [Write ''alpha'', HeaderSet ''Content-Type'' ''text/plain; charset=utf-8''],
                 broken = False\<rparr>"
    by (simp add: unfold_handlers unfold_paths unfold_writer unfold_sample)
  have b: "serve_u sample flat_u fresh ''/a.txt'' =
       Returned \<lparr>calls = [Write ''alpha'', HeaderSet ''Content-Type'' ''text/plain; charset=utf-8''],
                 broken = False\<rparr>"
    by (simp add: unfold_handlers unfold_paths unfold_writer unfold_sample)
  show ?thesis using a b setBeforeBody_serveFile setBeforeBody_serveFile_u by simp
qed

section \<open>The status of each failure\<close>

text \<open>
  Claim C5 gives 401 for a path rejected by the containment check. In \<^verbatim>\<open>sharedir.go\<close>
  the check is part of \<^verbatim>\<open>parseSafePath\<close>, whose nil result \<^verbatim>\<open>serve\<close> answers with
  400: the request below resolves to \<open>/etc/passwd\<close>, outside the root, and gets 400.
\<close>

theorem failure_statuses_counterexample:
  "resolved sample flat ''/?/../../etc/passwd'' = Some ''/etc/passwd''
   \<and> \<not> HasPrefix ''/etc/passwd'' (root flat)
   \<and> statusSent (serve sample flat fresh ''/?/../../etc/passwd'') = Some 400"
  by (simp add: unfold_handlers unfold_paths unfold_writer unfold_sample statusSent_def
      resolved_def decoded_def)

text \<open>
  Claim C5 as amended. In \<^verbatim>\<open>sharedir.go\<close> a request whose path cannot be resolved or
  does not have the root as a prefix gets 400, one denied by the access policy 401,
  one whose target cannot be stat'ed 404, and an allowed file that cannot be read 500.
  In the earlier variant a path that cannot be resolved gets 400, one without the
  root as a prefix 401, a failed stat 404 and an unreadable file 500. Every such
  error response carries the status named and the \<open>Content-Type\<close>
  \<open>text/plain; charset=utf-8\<close>. With an absolute root, as \<^verbatim>\<open>main\<close> sets it,
  resolution never fails.

  The type sent is the one \<^verbatim>\<open>net/http\<close> finds in the message: \<^verbatim>\<open>serveFailure\<close> and
  \<^verbatim>\<open>serveReject\<close> set the header after \<^verbatim>\<open>WriteHeader\<close>, when the header map is
  already committed (\<open>header_set_late\<close>).
\<close>

theorem failure_statuses:
  "(RequestURI \<noteq> ''/~favicon.ico'' \<longrightarrow>
      (resolved sys g RequestURI = None \<longrightarrow>
         serve sys g w RequestURI = Returned (serveFailure w StatusBadRequest ''invalid path''))
    \<and> (resolved sys g RequestURI = Some a \<and> \<not> HasPrefix a (root g) \<longrightarrow>
         serve sys g w RequestURI = Returned (serveFailure w StatusBadRequest ''invalid path''))
    \<and> (parseSafePath sys g RequestURI = Some sp \<and> Stat sys (abs_p sp) = None \<longrightarrow>
         serve sys g w RequestURI = Returned (serveFailure w StatusNotFound ''invalid path''))
    \<and> (parseSafePath sys g RequestURI = Some sp \<and> Stat sys (abs_p sp) = Some fi
         \<and> \<not> recursive g
         \<and> (if IsDir fi then abs_p sp \<noteq> root g else Dir (abs_p sp) \<noteq> root g) \<longrightarrow>
         serve sys g w RequestURI = Returned (serveFailure w StatusUnauthorized ''unauthorized''))
    \<and> (parseSafePath sys g RequestURI = Some sp \<and> Stat sys (abs_p sp) = Some fi
         \<and> \<not> IsDir fi \<and> (recursive g \<or> Dir (abs_p sp) = root g)
         \<and> ReadFile sys (abs_p sp) = None \<longrightarrow>
         serve sys g w RequestURI =
           Returned (serveFailure w StatusInternalServerError ''server error'')))
 \<and> (Abs (Getwd sys) (Join [rootDir gu, RequestURI]) = None \<longrightarrow>
      serve_u sys gu w RequestURI = Returned (serveReject w StatusBadRequest ''bad target path''))
 \<and> (Abs (Getwd sys) (Join [rootDir gu, RequestURI]) = Some target \<longrightarrow>
      (\<not> HasPrefix target (rootDir gu) \<longrightarrow>
         serve_u sys gu w RequestURI =
           Returned (serveReject w StatusUnauthorized ''unauthorized path''))
    \<and> (HasPrefix target (rootDir gu) \<and> Stat sys target = None \<longrightarrow>
         serve_u sys gu w RequestURI =
           Returned (serveReject w StatusNotFound ''target not found''))
    \<and> (HasPrefix target (rootDir gu) \<and> Stat sys target = Some fi \<and> \<not> IsDir fi
         \<and> ReadFile sys target = None \<longrightarrow>
         serve_u sys gu w RequestURI =
           Returned (serveReject w StatusInternalServerError ''error'')))
 \<and> (calls w = [] \<longrightarrow>
      ((code, message) \<in> {(400, ''invalid path''), (404, ''invalid path''),
                           (401, ''unauthorized''), (500, ''server error'')} \<longrightarrow>
         statusSent (Returned (serveFailure w code message)) = Some code
       \<and> contentTypeSent (Returned (serveFailure w code message))
           = Some ''text/plain; charset=utf-8'')
    \<and> ((code, message) \<in> {(400, ''bad target path''), (401, ''unauthorized path''),
                             (404, ''target not found''), (500, ''error'')} \<longrightarrow>
         statusSent (Returned (serveReject w code message)) = Some code
       \<and> contentTypeSent (Returned (serveReject w code message))
           = Some ''text/plain; charset=utf-8''))
 \<and> StatusBadRequest = 400 \<and> StatusUnauthorized = 401 \<and> StatusNotFound = 404
 \<and> StatusInternalServerError = 500
 \<and> (IsAbs (root g) \<longrightarrow> resolved sys g RequestURI \<noteq> None)
 \<and> (IsAbs (rootDir gu) \<longrightarrow> Abs (Getwd sys) (Join [rootDir gu, RequestURI]) \<noteq> None)"
  (is "(?U \<longrightarrow> ?A1 \<and> ?A2 \<and> ?A3 \<and> ?A4 \<and> ?A5) \<and> ?B1 \<and> (?T \<longrightarrow> ?B2 \<and> ?B3 \<and> ?B4) \<and> ?C")
proof -
  have A: "?A1 \<and> ?A2 \<and> ?A3 \<and> ?A4 \<and> ?A5" if u: "RequestURI \<noteq> ''/~favicon.ico''"
  proof -
    have a1: ?A1 using serve_inadmissible[OF u, of sys g w] parseSafePath_None[of sys g RequestURI]
      by (intro impI) simp
    have a2: ?A2 using serve_inadmissible[OF u, of sys g w] parseSafePath_None[of sys g RequestURI]
      by (intro impI, elim conjE) simp
    have a3: ?A3 using serve_not_found[OF u, of sys g sp w] by (intro impI, elim conjE)
    have a4: ?A4
    proof (intro impI, elim conjE)
      assume h: "parseSafePath sys g RequestURI = Some sp" "Stat sys (abs_p sp) = Some fi"
        "\<not> recursive g" "if IsDir fi then abs_p sp \<noteq> root g else Dir (abs_p sp) \<noteq> root g"
      show "serve sys g w RequestURI = Returned (serveFailure w StatusUnauthorized ''unauthorized'')"
      proof (cases "IsDir fi")
        case True
        then show ?thesis using serve_denied_dir[OF u h(1,2) True h(3)] h(4) by simp
      next
        case False
        then show ?thesis using serve_denied_file[OF u h(1,2) False h(3)] h(4) by simp
      qed
    qed
    have a5: ?A5
    proof (intro impI, elim conjE)
      assume h: "parseSafePath sys g RequestURI = Some sp" "Stat sys (abs_p sp) = Some fi"
        "\<not> IsDir fi" "recursive g \<or> Dir (abs_p sp) = root g" "ReadFile sys (abs_p sp) = None"
      show "serve sys g w RequestURI =
              Returned (serveFailure w StatusInternalServerError ''server error'')"
        using serve_allowed_file[OF u h(1-4), of w] serveFile_unreadable[OF h(5), of w] by simp
    qed
    show ?thesis using a1 a2 a3 a4 a5 by (intro conjI)
  qed
  have B1: ?B1 by (simp add: serve_u_def del: Join.simps)
  have B: "?B2 \<and> ?B3 \<and> ?B4" if t: "Abs (Getwd sys) (Join [rootDir gu, RequestURI]) = Some target"
  proof -
    have b2: ?B2 using t by (simp add: serve_u_def del: Join.simps)
    have b3: ?B3 using t by (simp add: serve_u_def del: Join.simps)
    have b4: ?B4
    proof (intro impI, elim conjE)
      assume h: "HasPrefix target (rootDir gu)" "Stat sys target = Some fi" "\<not> IsDir fi"
        "ReadFile sys target = None"
      show "serve_u sys gu w RequestURI =
              Returned (serveReject w StatusInternalServerError ''error'')"
        using serve_u_file[OF t h(1-3), of w] serveFile_u_unreadable[OF h(4), of w] by simp
    qed
    show ?thesis using b2 b3 b4 by (intro conjI)
  qed
  have ct: "statusSent (Returned (serveFailure w code message)) = Some code
       \<and> contentTypeSent (Returned (serveFailure w code message))
           = Some ''text/plain; charset=utf-8''"
    if "calls w = []"
      "(code, message) \<in> {(400, ''invalid path''), (404, ''invalid path''),
                           (401, ''unauthorized''), (500, ''server error'')}"
    using that statusSent_failure[OF that(1)] contentTypeOf_failure[OF that(1), of code message]
      sniff_messages
    by (auto simp: contentTypeSent_def bodyAllowedForStatus_def)
  have ctu: "statusSent (Returned (serveReject w code message)) = Some code
       \<and> contentTypeSent (Returned (serveReject w code message))
           = Some ''text/plain; charset=utf-8''"
    if "calls w = []"
      "(code, message) \<in> {(400, ''bad target path''), (401, ''unauthorized path''),
                           (404, ''target not found''), (500, ''error'')}"
    using that statusSent_reject[OF that(1)] contentTypeOf_reject[OF that(1), of code message]
      sniff_messages
    by (auto simp: contentTypeSent_def bodyAllowedForStatus_def)
  have C: ?C
    using resolved_absolute_root[of g sys RequestURI] Abs_absolute_root[of "rootDir gu" sys RequestURI]
      ct ctu
    by (simp add: StatusBadRequest_def StatusUnauthorized_def StatusNotFound_def
        StatusInternalServerError_def del: Join.simps)
  have A': "?U \<longrightarrow> ?A1 \<and> ?A2 \<and> ?A3 \<and> ?A4 \<and> ?A5" by (intro impI, rule A)
  have B': "?T \<longrightarrow> ?B2 \<and> ?B3 \<and> ?B4" by (intro impI, rule B)
  show ?thesis by (rule conjI[OF A' conjI[OF B1 conjI[OF B' C]]])
qed

theorem failure_statuses_witness:
  "serve (sample\<lparr>Getwd := None\<rparr>) (flat\<lparr>root := ''data''\<rparr>) fresh ''/a.txt''
     = Returned (serveFailure fresh 400 ''invalid path'')
   \<and> serve sample flat fresh ''/?/../../etc/passwd''
     = Returned (serveFailure fresh 400 ''invalid path'')
   \<and> serve sample flat fresh ''/missing'' = Returned (serveFailure fresh 404 ''invalid path'')
   \<and> serve sample flat fresh ''/sub/b.txt'' = Returned (serveFailure fresh 401 ''unauthorized'')
   \<and> serve sample flat fresh ''/locked.txt'' = Returned (serveFailure fresh 500 ''server error'')
   \<and> serve_u (sample\<lparr>Getwd := None\<rparr>) (flat_u\<lparr>rootDir := ''data''\<rparr>) fresh ''/a.txt''
     = Returned (serveReject fresh 400 ''bad target path'')
   \<and> serve_u sample flat_u fresh ''/?/../../etc/passwd''
     = Returned (serveReject fresh 401 ''unauthorized path'')
   \<and> serve_u sample flat_u fresh ''/missing'' = Returned (serveReject fresh 404 ''target not found'')
   \<and> serve_u sample flat_u fresh ''/locked.txt'' = Returned (serveReject fresh 500 ''error'')
   \<and> statusSent (serve sample flat fresh ''/missing'') = Some 404
   \<and> contentTypeSent (serve sample flat fresh ''/missing'') = Some ''text/plain; charset=utf-8''
   \<and> statusSent (serve_u sample flat_u fresh ''/locked.txt'') = Some 500
   \<and> contentTypeSent (serve_u sample flat_u fresh ''/locked.txt'')
       = Some ''text/plain; charset=utf-8''
   \<and> resolved sample flat ''/a.txt'' \<noteq> None"
proof -
  note ev = parseSafePath_def resolved_def decoded_def unfold_paths unfold_sample
  note codes = StatusBadRequest_def StatusUnauthorized_def StatusNotFound_def
    StatusInternalServerError_def
  let ?nowd = "sample\<lparr>Getwd := None\<rparr>"
  let ?rel = "flat\<lparr>root := ''data''\<rparr>"
  let ?rel_u = "flat_u\<lparr>rootDir := ''data''\<rparr>"
  let ?m = "\<lparr>abs_p = ''/data/missing'', rel = ''missing''\<rparr>"
  let ?b = "\<lparr>abs_p = ''/data/sub/b.txt'', rel = ''sub/b.txt''\<rparr>"
  let ?l = "\<lparr>abs_p = ''/data/locked.txt'', rel = ''locked.txt''\<rparr>"
  have rs: "resolved ?nowd ?rel ''/a.txt'' = None"
    "resolved sample flat ''/?/../../etc/passwd'' = Some ''/etc/passwd''"
    "\<not> HasPrefix ''/etc/passwd'' (root flat)"
    by (simp_all add: ev)
  have p: "parseSafePath sample flat ''/missing'' = Some ?m"
    "parseSafePath sample flat ''/sub/b.txt'' = Some ?b"
    "parseSafePath sample flat ''/locked.txt'' = Some ?l"
    by (simp_all add: ev)
  have ab: "Abs (Getwd ?nowd) (Join [rootDir ?rel_u, ''/a.txt'']) = None"
    "Abs (Getwd sample) (Join [rootDir flat_u, ''/?/../../etc/passwd'']) = Some ''/etc/passwd''"
    "Abs (Getwd sample) (Join [rootDir flat_u, ''/missing'']) = Some ''/data/missing''"
    "Abs (Getwd sample) (Join [rootDir flat_u, ''/locked.txt'']) = Some ''/data/locked.txt''"
    by (simp_all add: ev)
  have hp: "\<not> HasPrefix ''/etc/passwd'' (rootDir flat_u)"
    "HasPrefix ''/data/missing'' (rootDir flat_u)"
    "HasPrefix ''/data/locked.txt'' (rootDir flat_u)"
    by (simp_all add: ev)
  have st: "Stat sample ''/data/missing'' = None"
    "Stat sample ''/data/sub/b.txt'' = Some (fileOf 4)"
    "Stat sample ''/data/locked.txt'' = Some (fileOf 3)"
    "\<And>k. \<not> IsDir (fileOf k)" "\<not> recursive flat"
    "Dir ''/data/sub/b.txt'' \<noteq> root flat" "Dir ''/data/locked.txt'' = root flat"
    "ReadFile sample ''/data/locked.txt'' = None" "IsAbs (root flat)"
    by (simp_all add: ev)
  note Ta = failure_statuses[where sys = ?nowd and g = ?rel and gu = ?rel_u and w = fresh
      and RequestURI = "''/a.txt''"]
  note Te = failure_statuses[where sys = sample and g = flat and gu = flat_u and w = fresh
      and RequestURI = "''/?/../../etc/passwd''" and a = "''/etc/passwd''"
      and target = "''/etc/passwd''"]
  note Tm = failure_statuses[where sys = sample and g = flat and gu = flat_u and w = fresh
      and RequestURI = "''/missing''" and sp = ?m and target = "''/data/missing''"
      and code = 404 and message = "''invalid path''"]
  note Tb = failure_statuses[where sys = sample and g = flat and w = fresh
      and RequestURI = "''/sub/b.txt''" and sp = ?b and fi = "fileOf 4"]
  note Tl = failure_statuses[where sys = sample and g = flat and gu = flat_u and w = fresh
      and RequestURI = "''/locked.txt''" and sp = ?l and fi = "fileOf 3"
      and target = "''/data/locked.txt''" and code = 500 and message = "''error''"]
  note Tx = failure_statuses[where sys = sample and g = flat and RequestURI = "''/a.txt''"]
  have a: "serve ?nowd ?rel fresh ''/a.txt'' = Returned (serveFailure fresh 400 ''invalid path'')"
    using Ta[THEN conjunct1, rule_format, THEN conjunct1, rule_format, OF _ rs(1)]
    by (simp add: codes)
  have e: "serve sample flat fresh ''/?/../../etc/passwd''
             = Returned (serveFailure fresh 400 ''invalid path'')"
    using Te[THEN conjunct1, rule_format, THEN conjunct2, THEN conjunct1, rule_format] rs(2,3)
    by (simp add: codes)
  have m: "serve sample flat fresh ''/missing'' = Returned (serveFailure fresh 404 ''invalid path'')"
    using Tm[THEN conjunct1, rule_format, THEN conjunct2, THEN conjunct2, THEN conjunct1,
             rule_format] p(1) st(1)
    by (simp add: codes)
  have b: "serve sample flat fresh ''/sub/b.txt'' = Returned (serveFailure fresh 401 ''unauthorized'')"
    using Tb[THEN conjunct1, rule_format, THEN conjunct2, THEN conjunct2, THEN conjunct2,
             THEN conjunct1, rule_format] p(2) st(2,4,5,6)
    by (simp add: codes)
  have l: "serve sample flat fresh ''/locked.txt'' = Returned (serveFailure fresh 500 ''server error'')"
    using Tl[THEN conjunct1, rule_format, THEN conjunct2, THEN conjunct2, THEN conjunct2,
             THEN conjunct2, rule_format] p(3) st(3,4,7,8)
    by (simp add: codes)
  have au: "serve_u ?nowd ?rel_u fresh ''/a.txt'' = Returned (serveReject fresh 400 ''bad target path'')"
    using Ta[THEN conjunct2, THEN conjunct1, rule_format, OF ab(1)] by (simp add: codes)
  have eu: "serve_u sample flat_u fresh ''/?/../../etc/passwd''
              = Returned (serveReject fresh 401 ''unauthorized path'')"
    using Te[THEN conjunct2, THEN conjunct2, THEN conjunct1, rule_format, OF ab(2),
             THEN conjunct1, rule_format, OF hp(1)]
    by (simp add: codes)
  have mu: "serve_u sample flat_u fresh ''/missing'' = Returned (serveReject fresh 404 ''target not found'')"
    using Tm[THEN conjunct2, THEN conjunct2, THEN conjunct1, rule_format, OF ab(3),
             THEN conjunct2, THEN conjunct1, rule_format] hp(2) st(1)
    by (simp add: codes)
  have lu: "serve_u sample flat_u fresh ''/locked.txt'' = Returned (serveReject fresh 500 ''error'')"
    using Tl[THEN conjunct2, THEN conjunct2, THEN conjunct1, rule_format, OF ab(4),
             THEN conjunct2, THEN conjunct2, rule_format] hp(3) st(3,4,8)
    by (simp add: codes)
  have x: "resolved sample flat ''/a.txt'' \<noteq> None"
    using Tx[THEN conjunct2, THEN conjunct2, THEN conjunct2] st(9) by simp
  have fr: "calls fresh = []" by (simp add: fresh_def)
  have mt: "statusSent (serve sample flat fresh ''/missing'') = Some 404
          \<and> contentTypeSent (serve sample flat fresh ''/missing'')
              = Some ''text/plain; charset=utf-8''"
    unfolding m
    using Tm[THEN conjunct2, THEN conjunct2, THEN conjunct2, THEN conjunct1, rule_format, OF fr,
             THEN conjunct1, rule_format]
    by simp
  have lt: "statusSent (serve_u sample flat_u fresh ''/locked.txt'') = Some 500
          \<and> contentTypeSent (serve_u sample flat_u fresh ''/locked.txt'')
              = Some ''text/plain; charset=utf-8''"
    unfolding lu
    using Tl[THEN conjunct2, THEN conjunct2, THEN conjunct2, THEN conjunct1, rule_format, OF fr,
             THEN conjunct2, rule_format]
    by simp
  show ?thesis using a e m b l au eu mu lu x mt lt by simp
qed

section \<open>Failures that end the process\<close>

text \<open>
  Claim C6. While an allowed directory is served, a failing directory read ends the
  process in both variants, and in \<^verbatim>\<open>sharedir.go\<close> so do a template that cannot be
  parsed and a template whose execution fails; no error response is written (after a
  failed execution the response holds only what the template wrote).
\<close>

theorem directory_failure_ends_process:
  "(RequestURI \<noteq> ''/~favicon.ico'' \<and> parseSafePath sys g RequestURI = Some sp
      \<and> Stat sys (abs_p sp) = Some fi \<and> IsDir fi \<and> (recursive g \<or> abs_p sp = root g) \<longrightarrow>
      (ReadDir sys (abs_p sp) = None \<longrightarrow> serve sys g w RequestURI = Fatal ''read dir'' w)
    \<and> (ReadDir sys (abs_p sp) = Some es
         \<and> ParseFiles sys (dirFuncs sys sp) (Join [home g, templateFp]) = None \<longrightarrow>
        serve sys g w RequestURI = Fatal ''parse template'' w)
    \<and> (ReadDir sys (abs_p sp) = Some es
         \<and> ParseFiles sys (dirFuncs sys sp) (Join [home g, templateFp]) = Some tmp
         \<and> \<not> snd (Execute tmp w \<lparr>DirName = ''/'' @ rel sp, Content = es\<rparr>) \<longrightarrow>
        (\<exists>w' cs. serve sys g w RequestURI = Fatal ''execute template'' w'
                 \<and> calls w' = calls w @ map Write cs)))
 \<and> (Abs (Getwd sys) (Join [rootDir gu, RequestURI]) = Some target
      \<and> HasPrefix target (rootDir gu) \<and> Stat sys target = Some fi \<and> IsDir fi
      \<and> ReadDir sys target = None \<longrightarrow>
      serve_u sys gu w RequestURI = Fatal ''read fsDir'' w)"
proof -
  have A: "serve sys g w RequestURI = Fatal ''read dir'' w"
    if "RequestURI \<noteq> ''/~favicon.ico''" "parseSafePath sys g RequestURI = Some sp"
      "Stat sys (abs_p sp) = Some fi" "IsDir fi" "recursive g \<or> abs_p sp = root g"
      "ReadDir sys (abs_p sp) = None"
    using serve_allowed_dir[OF that(1-5)] serveDir_read_fails[OF that(6)] by simp
  have B: "serve sys g w RequestURI = Fatal ''parse template'' w"
    if "RequestURI \<noteq> ''/~favicon.ico''" "parseSafePath sys g RequestURI = Some sp"
      "Stat sys (abs_p sp) = Some fi" "IsDir fi" "recursive g \<or> abs_p sp = root g"
      "ReadDir sys (abs_p sp) = Some es"
      "ParseFiles sys (dirFuncs sys sp) (Join [home g, templateFp]) = None"
    using serve_allowed_dir[OF that(1-5)] serveDir_parse_fails[OF that(6,7)] by simp
  have C: "\<exists>w' cs. serve sys g w RequestURI = Fatal ''execute template'' w'
                 \<and> calls w' = calls w @ map Write cs"
    if "RequestURI \<noteq> ''/~favicon.ico''" "parseSafePath sys g RequestURI = Some sp"
      "Stat sys (abs_p sp) = Some fi" "IsDir fi" "recursive g \<or> abs_p sp = root g"
      "ReadDir sys (abs_p sp) = Some es"
      "ParseFiles sys (dirFuncs sys sp) (Join [home g, templateFp]) = Some tmp"
      "\<not> snd (Execute tmp w \<lparr>DirName = ''/'' @ rel sp, Content = es\<rparr>)"
    using serve_allowed_dir[OF that(1-5)] serveDir_execute_fails[OF that(6,7,8)]
      Execute_calls[of tmp w "\<lparr>DirName = ''/'' @ rel sp, Content = es\<rparr>"]
    by auto
  have D: "serve_u sys gu w RequestURI = Fatal ''read fsDir'' w"
    if "Abs (Getwd sys) (Join [rootDir gu, RequestURI]) = Some target"
      "HasPrefix target (rootDir gu)" "Stat sys target = Some fi" "IsDir fi"
      "ReadDir sys target = None"
    using serve_u_dir[OF that(1-4)] serveDir_u_read_fails[OF that(5)] by simp
  show ?thesis using A B C D by blast
qed

theorem directory_failure_ends_process_witness:
  "serve sample deep fresh ''/sealed'' = Fatal ''read dir'' fresh
   \<and> serve sample (deep\<lparr>home := ''/nowhere/''\<rparr>) fresh ''/sub'' = Fatal ''parse template'' fresh
   \<and> (\<exists>w' cs. serve sample deep (fresh\<lparr>broken := True\<rparr>) ''/sub'' = Fatal ''execute template'' w'
                \<and> calls w' = calls (fresh\<lparr>broken := True\<rparr>) @ map Write cs)
   \<and> serve_u sample flat_u fresh ''/sealed'' = Fatal ''read fsDir'' fresh"
proof -
  note ev = parseSafePath_def unfold_paths unfold_sample dirFuncs_def templateFp_def Execute_def
  let ?sealed = "\<lparr>abs_p = ''/data/sealed'', rel = ''sealed''\<rparr>"
  let ?sub = "\<lparr>abs_p = ''/data/sub'', rel = ''sub''\<rparr>"
  let ?es = "[\<lparr>Name = ''b.txt'', Info = Some (fileOf 4)\<rparr>]"
  let ?tmp = "\<lambda>d. (DirName d # map (\<lambda>e. href (dirFuncs sample ?sub) (Name e)) (Content d), True)"
  have p1: "parseSafePath sample deep ''/sealed'' = Some ?sealed" by (simp add: ev)
  have p2: "parseSafePath sample deep ''/sub'' = Some ?sub"
    "parseSafePath sample (deep\<lparr>home := ''/nowhere/''\<rparr>) ''/sub'' = Some ?sub"
    by (simp_all add: ev)
  have st: "Stat sample ''/data/sealed'' = Some dirOf" "Stat sample ''/data/sub'' = Some dirOf"
    "IsDir dirOf" "recursive deep"
    by (simp_all add: ev)
  have rd: "ReadDir sample ''/data/sealed'' = None" "ReadDir sample ''/data/sub'' = Some ?es"
    by (simp_all add: ev)
  have pf: "ParseFiles sample (dirFuncs sample ?sub) (Join [''/nowhere/'', templateFp]) = None"
    "ParseFiles sample (dirFuncs sample ?sub) (Join [home deep, templateFp]) = Some ?tmp"
    by (simp_all add: ev)
  have xf: "\<not> snd (Execute ?tmp (fresh\<lparr>broken := True\<rparr>) \<lparr>DirName = ''/sub'', Content = ?es\<rparr>)"
    by (simp add: ev)
  have ab: "Abs (Getwd sample) (Join [rootDir flat_u, ''/sealed'']) = Some ''/data/sealed''"
    "HasPrefix ''/data/sealed'' (rootDir flat_u)"
    by (simp_all add: ev)
  note T1 = directory_failure_ends_process[where sys = sample and g = deep and w = fresh
      and RequestURI = "''/sealed''" and sp = ?sealed and fi = dirOf and gu = flat_u
      and target = "''/data/sealed''"]
  note T2 = directory_failure_ends_process[where sys = sample
      and g = "deep\<lparr>home := ''/nowhere/''\<rparr>" and w = fresh and RequestURI = "''/sub''"
      and sp = ?sub and fi = dirOf and es = ?es]
  note T3 = directory_failure_ends_process[where sys = sample and g = deep
      and w = "fresh\<lparr>broken := True\<rparr>" and RequestURI = "''/sub''" and sp = ?sub and fi = dirOf
      and es = ?es and tmp = ?tmp]
  have t1: "serve sample deep fresh ''/sealed'' = Fatal ''read dir'' fresh"
    by (rule T1[THEN conjunct1, rule_format, THEN conjunct1, rule_format])
       (simp_all add: p1 st rd)
  have t2: "serve sample (deep\<lparr>home := ''/nowhere/''\<rparr>) fresh ''/sub'' = Fatal ''parse template'' fresh"
    by (rule T2[THEN conjunct1, rule_format, THEN conjunct2, THEN conjunct1, rule_format])
       (simp_all add: p2 st rd pf del: Join.simps)
  have t3: "\<exists>w' cs. serve sample deep (fresh\<lparr>broken := True\<rparr>) ''/sub'' = Fatal ''execute template'' w'
                \<and> calls w' = calls (fresh\<lparr>broken := True\<rparr>) @ map Write cs"
    by (rule T3[THEN conjunct1, rule_format, THEN conjunct2, THEN conjunct2, rule_format])
       (simp_all add: p2 st rd pf xf del: Join.simps)
  have t4: "serve_u sample flat_u fresh ''/sealed'' = Fatal ''read fsDir'' fresh"
    by (rule T1[THEN conjunct2, rule_format]) (simp add: ab st rd del: Join.simps)
  show ?thesis using t1 t2 t3 t4 by blast
qed

section \<open>Guessing the media type\<close>

text \<open>
  Claim C7. For a path whose last element ends in a dot followed by an extension \<open>e\<close>,
  both variants return the type registered for \<open>.e\<close>, and the generic binary type when
  none is registered; for a path whose last element has no dot they return the generic
  binary type. The earlier variant looks at the text after the last dot of the whole
  path, so for a dot in a directory name it relies on the table holding no extension
  with a separator in it.
\<close>

theorem mime_type_by_extension:
  "(CHR ''.'' \<notin> set e \<and> CHR ''/'' \<notin> set e \<longrightarrow>
      guessMimeType sys (p @ ''.'' @ e) =
        (if TypeByExtension sys (''.'' @ e) = [] then ''application/octet-stream''
         else TypeByExtension sys (''.'' @ e))
    \<and> getMimeType sys (p @ ''.'' @ e) = guessMimeType sys (p @ ''.'' @ e))
 \<and> (CHR ''.'' \<notin> set b \<and> CHR ''/'' \<notin> set b \<longrightarrow>
      guessMimeType sys b = ''application/octet-stream''
    \<and> guessMimeType sys (d @ ''/'' @ b) = ''application/octet-stream''
    \<and> getMimeType sys b = ''application/octet-stream''
    \<and> ((\<forall>k. CHR ''/'' \<in> set k \<longrightarrow> TypeByExtension sys k = []) \<longrightarrow>
         getMimeType sys (d @ ''/'' @ b) = ''application/octet-stream''))"
proof -
  have A: "guessMimeType sys (p @ ''.'' @ e) =
        (if TypeByExtension sys (''.'' @ e) = [] then ''application/octet-stream''
         else TypeByExtension sys (''.'' @ e))
    \<and> getMimeType sys (p @ ''.'' @ e) = guessMimeType sys (p @ ''.'' @ e)"
    if "CHR ''.'' \<notin> set e" "CHR ''/'' \<notin> set e"
    using guessMimeType_last_dot[OF that] getMimeType_last_dot[OF that(1)] by simp
  have B: "guessMimeType sys b = ''application/octet-stream''
    \<and> guessMimeType sys (d @ ''/'' @ b) = ''application/octet-stream''
    \<and> getMimeType sys b = ''application/octet-stream''
    \<and> ((\<forall>k. CHR ''/'' \<in> set k \<longrightarrow> TypeByExtension sys k = []) \<longrightarrow>
         getMimeType sys (d @ ''/'' @ b) = ''application/octet-stream'')"
    if "CHR ''.'' \<notin> set b" "CHR ''/'' \<notin> set b"
    using Ext_no_dot[OF that] getMimeType_no_dot[OF that(1)] getMimeType_dotted_dir[OF _ that(1)]
    by (simp add: guessMimeType_def)
  show ?thesis using A B by blast
qed

theorem mime_type_by_extension_witness:
  "guessMimeType sample ''index.html'' = ''text/html; charset=utf-8''
   \<and> getMimeType sample ''index.html'' = ''text/html; charset=utf-8''
   \<and> guessMimeType sample ''v1.2/README'' = ''application/octet-stream''
   \<and> getMimeType sample ''v1.2/README'' = ''application/octet-stream''"
  using mime_type_by_extension[where sys = sample and p = "''index''" and e = "''html''"
      and b = "''README''" and d = "''v1.2''"]
  by (auto simp: sample_def sampleTypes_def)

section \<open>The reserved icon path\<close>

text \<open>
  Claim C8 places the icon outside the root. Nothing in the code relates the home
  directory to the root: started without a directory argument in \<open>/opt/sharedir\<close>,
  where the program is installed, \<^verbatim>\<open>main\<close> takes that directory as the root and as
  the home directory, and the icon that \<open>/~favicon.ico\<close> is answered with lies inside
  the root.
\<close>

theorem favicon_inside_root:
  "main (sample\<lparr>Getwd := Some ''/opt/sharedir''\<rparr>) [] =
     Started \<lparr>root = ''/opt/sharedir'', recursive = False, home = ''/opt/sharedir/''\<rparr> '':2022''
   \<and> Join [''/opt/sharedir/'', ''sharedir.ico''] = ''/opt/sharedir/sharedir.ico''
   \<and> contained ''/opt/sharedir'' (Join [''/opt/sharedir/'', ''sharedir.ico''])
   \<and> serve (sample\<lparr>Getwd := Some ''/opt/sharedir''\<rparr>)
       \<lparr>root = ''/opt/sharedir'', recursive = False, home = ''/opt/sharedir/''\<rparr>
       fresh ''/~favicon.ico'' =
       Returned \<lparr>calls = [Write ''icon'', HeaderSet ''Content-Type'' ''application/octet-stream''],
                 broken = False\<rparr>"
proof -
  have m: "main (sample\<lparr>Getwd := Some ''/opt/sharedir''\<rparr>) [] =
     Started \<lparr>root = ''/opt/sharedir'', recursive = False, home = ''/opt/sharedir/''\<rparr> '':2022''"
    by (simp add: main_def unfold_paths unfold_sample)
  have j: "Join [''/opt/sharedir/'', ''sharedir.ico''] = ''/opt/sharedir/sharedir.ico''"
    by (simp add: unfold_paths)
  have c: "contained ''/opt/sharedir'' (Join [''/opt/sharedir/'', ''sharedir.ico''])"
    by (simp add: contained_def unfold_paths)
  have s: "serve (sample\<lparr>Getwd := Some ''/opt/sharedir''\<rparr>)
       \<lparr>root = ''/opt/sharedir'', recursive = False, home = ''/opt/sharedir/''\<rparr>
       fresh ''/~favicon.ico'' =
       Returned \<lparr>calls = [Write ''icon'', HeaderSet ''Content-Type'' ''application/octet-stream''],
                 broken = False\<rparr>"
    by (simp add: unfold_handlers unfold_paths unfold_writer unfold_sample)
  show ?thesis by (rule conjI[OF m conjI[OF j conjI[OF c s]]])
qed

text \<open>
  Claim C8 as amended. The request \<open>/~favicon.ico\<close> is answered by \<^verbatim>\<open>serveFile\<close> on the
  file \<open>sharedir.ico\<close> of the program's home directory, whatever the root, the
  recursion mode, the working directory and the file-system status calls say: the path
  resolver, the containment check and the access policy are not consulted, and the
  bytes come from that one location, which no part of the request reaches. The home
  directory may lie outside the root, as in the sample installation, where the icon is
  served all the same, or inside it.
\<close>

theorem favicon_fixed_source:
  "serve sys g w ''/~favicon.ico'' =
     Returned (serveFile sys w \<lparr>abs_p = Join [home g, ''sharedir.ico''], rel = []\<rparr>)
   \<and> serve (sys\<lparr>Getwd := wd, Stat := st, ReadDir := rd, unescapeEntities := ue,
                 TypeByExtension := tb, ParseFiles := pf\<rparr>)
           (g\<lparr>root := rt, recursive := b\<rparr>) w ''/~favicon.ico'' =
     serve sys g w ''/~favicon.ico''
   \<and> serveFile sys w \<lparr>abs_p = icon, rel = []\<rparr> =
       (case ReadFile sys icon of
          None \<Rightarrow> serveFailure w StatusInternalServerError ''server error''
        | Some data \<Rightarrow>
            if broken w
            then serveFailure (w\<lparr>calls := calls w @ [Write data]\<rparr>)
                   StatusInternalServerError ''server error''
            else w\<lparr>calls := calls w @
                   [Write data, HeaderSet ''Content-Type'' ''application/octet-stream'']\<rparr>)
   \<and> \<not> contained (root flat) (Join [home flat, ''sharedir.ico''])
   \<and> serve sample flat fresh ''/~favicon.ico'' =
       Returned \<lparr>calls = [Write ''icon'', HeaderSet ''Content-Type'' ''application/octet-stream''],
                 broken = False\<rparr>"
proof -
  have A: "serve sys g w ''/~favicon.ico'' =
     Returned (serveFile sys w \<lparr>abs_p = Join [home g, ''sharedir.ico''], rel = []\<rparr>)"
    by (simp add: serve_def serveIcon_def)
  have B: "serve (sys\<lparr>Getwd := wd, Stat := st, ReadDir := rd, unescapeEntities := ue,
                 TypeByExtension := tb, ParseFiles := pf\<rparr>)
           (g\<lparr>root := rt, recursive := b\<rparr>) w ''/~favicon.ico'' =
     serve sys g w ''/~favicon.ico''"
    by (simp add: serve_def serveIcon_def serveFile_def guessMimeType_def Ext_def unfold_writer
        split: option.splits del: Join.simps)
  have C: "serveFile sys w \<lparr>abs_p = icon, rel = []\<rparr> =
       (case ReadFile sys icon of
          None \<Rightarrow> serveFailure w StatusInternalServerError ''server error''
        | Some data \<Rightarrow>
            if broken w
            then serveFailure (w\<lparr>calls := calls w @ [Write data]\<rparr>)
                   StatusInternalServerError ''server error''
            else w\<lparr>calls := calls w @
                   [Write data, HeaderSet ''Content-Type'' ''application/octet-stream'']\<rparr>)"
    by (simp add: serveFile_def guessMimeType_def Ext_def unfold_writer split: option.splits)
  have D: "\<not> contained (root flat) (Join [home flat, ''sharedir.ico''])"
    by (simp add: contained_def unfold_paths unfold_sample)
  have E: "serve sample flat fresh ''/~favicon.ico'' =
       Returned \<lparr>calls = [Write ''icon'', HeaderSet ''Content-Type'' ''application/octet-stream''],
                 broken = False\<rparr>"
    by (simp add: unfold_handlers unfold_paths unfold_writer unfold_sample)
  show ?thesis by (rule conjI[OF A conjI[OF B conjI[OF C conjI[OF D E]]]])
qed

section \<open>The result of parseSafePath\<close>

text \<open>
  Claim C9. Whenever \<^verbatim>\<open>parseSafePath\<close> returns a safe path, its \<open>abs\<close> field has the
  root as a string prefix, its \<open>rel\<close> field does not begin with a separator, \<open>rel\<close> is
  empty exactly when \<open>abs\<close> is the root (for a non-empty root, which \<^verbatim>\<open>main\<close>'s
  \<^verbatim>\<open>filepath.Abs\<close> always produces), and \<open>rel\<close> is \<open>abs\<close> with the root prefix and at
  most one following separator stripped.
\<close>

theorem parseSafePath_result:
  assumes "parseSafePath sys g raw = Some sp"
  shows "HasPrefix (abs_p sp) (root g)
       \<and> \<not> HasPrefix (rel sp) ''/''
       \<and> (root g \<noteq> [] \<longrightarrow> (rel sp = [] \<longleftrightarrow> abs_p sp = root g))
       \<and> rel sp = TrimPrefix (TrimPrefix (abs_p sp) (root g)) ''/''
       \<and> (abs_p sp = root g @ rel sp \<or> abs_p sp = root g @ ''/'' @ rel sp)"
proof -
  from assms obtain a where res: "resolved sys g raw = Some a"
    and pre: "HasPrefix a (root g)"
    and sp: "sp = \<lparr>abs_p = a,
                   rel = (if a \<noteq> root g then TrimPrefix (TrimPrefix a (root g)) ''/'' else [])\<rparr>"
    by (auto simp: parseSafePath_resolved split: option.splits if_splits)
  from pre obtain s where a: "a = root g @ s"
    by (auto simp: HasPrefix_def prefix_def)
  have trim: "TrimPrefix a (root g) = s" by (simp add: a TrimPrefix_append)
  have nd: "nodbl (root g @ s)" using res Abs_nodbl a by (simp add: resolved_def)
  have tr: "\<And>u. root g @ s = u @ ''/'' \<Longrightarrow> u = []"
    using res Abs_no_trailing a by (simp add: resolved_def)
  note shape = rel_shape[of "root g" s, OF nd tr]
  have eq: "a = root g \<longleftrightarrow> s = []" by (simp add: a)
  have r: "rel sp = TrimPrefix s ''/''"
  proof (cases "s = []")
    case True
    then show ?thesis using eq by (simp add: sp TrimPrefix_def HasPrefix_def)
  next
    case False
    then have "a \<noteq> root g" using eq by simp
    then show ?thesis using trim by (simp add: sp)
  qed
  have ab: "abs_p sp = root g @ s" by (simp add: sp a)
  have c1: "HasPrefix (abs_p sp) (root g)" using pre by (simp add: sp)
  have c2: "\<not> HasPrefix (rel sp) ''/''" using shape(1) by (simp add: r)
  have c3: "root g \<noteq> [] \<longrightarrow> (rel sp = [] \<longleftrightarrow> abs_p sp = root g)"
  proof (cases "s = []")
    case True
    then show ?thesis by (simp add: r ab TrimPrefix_def HasPrefix_def)
  next
    case False
    then show ?thesis using shape(2) by (auto simp: r ab)
  qed
  have c4: "rel sp = TrimPrefix (TrimPrefix (abs_p sp) (root g)) ''/''"
    using r trim ab a by simp
  have c5: "abs_p sp = root g @ rel sp \<or> abs_p sp = root g @ ''/'' @ rel sp"
    using shape(3) unfolding r ab by auto
  show ?thesis using c1 c2 c3 c4 c5 by blast
qed

theorem parseSafePath_result_witness:
  "parseSafePath sample flat ''/sub/b.txt'' = Some \<lparr>abs_p = ''/data/sub/b.txt'', rel = ''sub/b.txt''\<rparr>
   \<and> HasPrefix ''/data/sub/b.txt'' (root flat)
   \<and> \<not> HasPrefix ''sub/b.txt'' ''/''
   \<and> ''/data/sub/b.txt'' = root flat @ ''/'' @ ''sub/b.txt''"
proof -
  have h: "parseSafePath sample flat ''/sub/b.txt''
             = Some \<lparr>abs_p = ''/data/sub/b.txt'', rel = ''sub/b.txt''\<rparr>"
    by (simp add: parseSafePath_def unfold_paths unfold_sample)
  show ?thesis
    using h parseSafePath_result[OF h] by (simp add: flat_def HasPrefix_def)
qed

section \<open>The recursion flag of the earlier variant\<close>

text \<open>
  Claim C10. In the earlier variant the flag \<open>-r\<close> is read from the command line, and
  \<^verbatim>\<open>serve\<close> gives the same answer whatever its value: every existing target that
  passes the prefix check is handed to the file or the directory server.
\<close>

theorem recursive_flag_unused:
  "serve_u sys (g\<lparr>recursive_u := b\<rparr>) w RequestURI = serve_u sys g w RequestURI
   \<and> (Abs (Getwd sys) (Join [rootDir g, RequestURI]) = Some target
        \<and> HasPrefix target (rootDir g) \<and> Stat sys target = Some fi \<longrightarrow>
      serve_u sys (g\<lparr>recursive_u := b\<rparr>) w RequestURI =
        (if IsDir fi then serveDir_u sys w target RequestURI
         else Returned (serveFile_u sys w target)))
   \<and> (parseArgs_u args (r, addr, dir) = Some (r', addr', dir') \<longrightarrow>
        r' = (r \<or> ''-r'' \<in> set args))"
proof -
  have A: "serve_u sys (g\<lparr>recursive_u := b\<rparr>) w RequestURI = serve_u sys g w RequestURI"
    by (simp add: serve_u_def del: Join.simps cong: option.case_cong)
  have B: "Abs (Getwd sys) (Join [rootDir g, RequestURI]) = Some target
        \<and> HasPrefix target (rootDir g) \<and> Stat sys target = Some fi \<longrightarrow>
      serve_u sys (g\<lparr>recursive_u := b\<rparr>) w RequestURI =
        (if IsDir fi then serveDir_u sys w target RequestURI
         else Returned (serveFile_u sys w target))"
    unfolding A by (simp add: serve_u_def del: Join.simps)
  have C: "parseArgs_u args (r, addr, dir) = Some (r', addr', dir') \<longrightarrow>
        r' = (r \<or> ''-r'' \<in> set args)"
    using parseArgs_u_flag by blast
  show ?thesis by (rule conjI[OF A conjI[OF B C]])
qed

theorem recursive_flag_unused_witness:
  "serve_u sample (flat_u\<lparr>recursive_u := True\<rparr>) fresh ''/sub/b.txt'' =
     serve_u sample flat_u fresh ''/sub/b.txt''
   \<and> serve_u sample (flat_u\<lparr>recursive_u := True\<rparr>) fresh ''/sub/b.txt'' =
       Returned (serveFile_u sample fresh ''/data/sub/b.txt'')
   \<and> serveFile_u sample fresh ''/data/sub/b.txt'' =
       \<lparr>calls = [Write ''beta'', HeaderSet ''Content-Type'' ''text/plain; charset=utf-8''],
        broken = False\<rparr>
   \<and> parseArgs_u ['':80'', ''/data'', ''-r''] (False, [], []) = Some (True, '':80'', ''/data'')"
  using recursive_flag_unused[where sys = sample and g = flat_u and b = True and w = fresh
      and RequestURI = "''/sub/b.txt''" and target = "''/data/sub/b.txt''" and fi = "fileOf 4"
      and args = "['':80'', ''/data'', ''-r'']" and r = False and addr = "[]" and dir = "[]"
      and r' = True and addr' = "'':80''" and dir' = "''/data''"]
  by (simp add: unfold_handlers unfold_paths unfold_writer unfold_sample)

end
